theory Spec2Isabelle
  imports Complex_Main "HOL-Library.Sublist" "HOL-Library.Char_ord" "HOL-Library.List_Lexorder"
begin

section \<open>JavaScript values and string primitives\<close>

text \<open>
  The calendar application is written in JavaScript.  Its strings are modelled as
  \<^typ>\<open>string\<close> (lists of 8-bit characters), which is exact for ASCII text.  The string
  methods the application calls are modelled on that alphabet:
  \<^item> \<open>trim\<close> removes leading and trailing white space (space, tab, line feed, vertical
    tab, form feed, carriage return);
  \<^item> \<open>toLowerCase\<close> maps \<open>A\<close>..\<open>Z\<close> to \<open>a\<close>..\<open>z\<close>;
  \<^item> \<open>includes\<close> (here \<open>includesStr\<close>) is the test for a contiguous substring;
  \<^item> \<open>split\<close> on a one-character separator.
\<close>

definition isWhiteSpace :: "char \<Rightarrow> bool" where
  "isWhiteSpace c \<longleftrightarrow>
     c = CHR '' '' \<or> c = CHR 0x09 \<or> c = CHR 0x0A \<or> c = CHR 0x0B \<or> c = CHR 0x0C \<or> c = CHR 0x0D"

definition trim :: "string \<Rightarrow> string" where
  "trim s = rev (dropWhile isWhiteSpace (rev (dropWhile isWhiteSpace s)))"

definition lowerChar :: "char \<Rightarrow> char" where
  "lowerChar c =
     (case map_of (zip ''ABCDEFGHIJKLMNOPQRSTUVWXYZ'' ''abcdefghijklmnopqrstuvwxyz'') c of
        Some d \<Rightarrow> d
      | None \<Rightarrow> c)"

definition toLowerCase :: "string \<Rightarrow> string" where
  "toLowerCase s = map lowerChar s"

fun includesStr :: "string \<Rightarrow> string \<Rightarrow> bool" where
  "includesStr [] q = (q = [])"
| "includesStr (c # s) q = (prefix q (c # s) \<or> includesStr s q)"

fun split :: "char \<Rightarrow> string \<Rightarrow> string list" where
  "split sep [] = [[]]"
| "split sep (c # s) =
     (if c = sep then [] # split sep s
      else (case split sep s of p # ps \<Rightarrow> (c # p) # ps | [] \<Rightarrow> [[c]]))"

text \<open>Decimal rendering of integers, as \<open>String(n)\<close> does for integral numbers.\<close>

fun showNat :: "nat \<Rightarrow> string" where
  "showNat n = (if n < 10 then [''0123456789'' ! n]
                else showNat (n div 10) @ [''0123456789'' ! (n mod 10)])"

declare showNat.simps [simp del]

definition showInt :: "int \<Rightarrow> string" where
  "showInt i = (if i < 0 then CHR ''-'' # showNat (nat (- i)) else showNat (nat i))"

definition padStart2 :: "string \<Rightarrow> string" where
  \<comment> \<open>\<open>s.padStart(2, '0')\<close>\<close>
  "padStart2 s = replicate (2 - length s) CHR ''0'' @ s"

text \<open>
  Values that arrive from parsed JSON, from spreadsheet cells or from split text lines.
  Numbers are restricted to integers; \<open>JNull\<close> stands for both \<open>null\<close> and
  \<open>undefined\<close>, which the application only ever tests for truthiness.
\<close>

datatype json =
    JNull
  | JBool bool
  | JNum int
  | JStr string
  | JArr "json list"
  | JObj "(string \<times> json) list"

fun truthy :: "json \<Rightarrow> bool" where
  "truthy JNull = False"
| "truthy (JBool b) = b"
| "truthy (JNum n) = (n \<noteq> 0)"
| "truthy (JStr s) = (s \<noteq> [])"
| "truthy (JArr xs) = True"
| "truthy (JObj kvs) = True"

fun joinComma :: "string list \<Rightarrow> string" where
  "joinComma [] = []"
| "joinComma [s] = s"
| "joinComma (s # t # ss) = s @ '','' @ joinComma (t # ss)"

fun joinWith :: "string \<Rightarrow> string list \<Rightarrow> string" where
  \<comment> \<open>\<open>parts.join(sep)\<close> on texts\<close>
  "joinWith sep [] = []"
| "joinWith sep [s] = s"
| "joinWith sep (s # t # ss) = s @ sep @ joinWith sep (t # ss)"

fun toString :: "json \<Rightarrow> string" where
  "toString JNull = []"
| "toString (JBool b) = (if b then ''true'' else ''false'')"
| "toString (JNum n) = showInt n"
| "toString (JStr s) = s"
| "toString (JArr xs) = joinComma (map toString xs)"
| "toString (JObj kvs) = ''[object Object]''"


section \<open>Calendar dates of the JavaScript runtime\<close>

text \<open>
  \<open>new Date(year, monthIndex, day)\<close> followed by \<open>getFullYear()\<close>, \<open>getMonth()\<close>
  and \<open>getDate()\<close>: the month index is reduced into \<open>0..11\<close> with the years carried,
  a day outside the month rolls over into the neighbouring months, a year in \<open>0..99\<close> means
  \<open>1900 + year\<close>, and an argument that is \<open>NaN\<close> (here \<open>None\<close>) or a day beyond the
  representable range (100,000,000 days on either side of 1970-01-01, for a host in UTC) gives
  an Invalid Date (here \<open>None\<close>).  The result is (year, month index, day).
\<close>

definition isLeapYear :: "int \<Rightarrow> bool" where
  "isLeapYear y \<longleftrightarrow> y mod 4 = 0 \<and> (y mod 100 \<noteq> 0 \<or> y mod 400 = 0)"

definition daysInMonth :: "int \<Rightarrow> int \<Rightarrow> int" where
  "daysInMonth y m =
     (if m = 1 then (if isLeapYear y then 29 else 28)
      else if m = 3 \<or> m = 5 \<or> m = 8 \<or> m = 10 then 30 else 31)"

function rollDay :: "int \<Rightarrow> int \<Rightarrow> int \<Rightarrow> int \<times> int \<times> int" where
  "rollDay y m d =
     (if d < 1 then
        rollDay (if m = 0 then y - 1 else y) (if m = 0 then 11 else m - 1)
          (d + daysInMonth (if m = 0 then y - 1 else y) (if m = 0 then 11 else m - 1))
      else if daysInMonth y m < d then
        rollDay (if m = 11 then y + 1 else y) (if m = 11 then 0 else m + 1) (d - daysInMonth y m)
      else (y, m, d))"
  by pat_completeness auto
termination
proof (relation "measure (\<lambda>(y, m, d). if d < 1 then nat (32 - d) else nat d)")
  show "wf (measure (\<lambda>(y, m, d). if d < 1 then nat (32 - d) else nat d))"
    by simp
next
  fix y m d :: int
  assume "d < 1"
  then show "((if m = 0 then y - 1 else y, if m = 0 then 11 else m - 1,
               d + daysInMonth (if m = 0 then y - 1 else y) (if m = 0 then 11 else m - 1)),
              y, m, d) \<in> measure (\<lambda>(y, m, d). if d < 1 then nat (32 - d) else nat d)"
    by (simp add: daysInMonth_def split: if_splits)
next
  fix y m d :: int
  assume "\<not> d < 1" and "daysInMonth y m < d"
  then show "((if m = 11 then y + 1 else y, if m = 11 then 0 else m + 1, d - daysInMonth y m),
              y, m, d) \<in> measure (\<lambda>(y, m, d). if d < 1 then nat (32 - d) else nat d)"
    by (simp add: daysInMonth_def split: if_splits)
qed

declare rollDay.simps [simp del]

definition inDateRange :: "int \<times> int \<times> int \<Rightarrow> bool" where
  "inDateRange ymd =
     (case ymd of (y, m, d) \<Rightarrow>
        (- 271821 < y \<or> (y = - 271821 \<and> (3 < m \<or> (m = 3 \<and> 20 \<le> d)))) \<and>
        (y < 275760 \<or> (y = 275760 \<and> (m < 8 \<or> (m = 8 \<and> d \<le> 13)))))"

definition newDate :: "int \<Rightarrow> int option \<Rightarrow> int option \<Rightarrow> (int \<times> int \<times> int) option" where
  "newDate year month day =
     (case month of
        None \<Rightarrow> None
      | Some m \<Rightarrow>
          (case day of
             None \<Rightarrow> None
           | Some d \<Rightarrow>
               (let yr = (if 0 \<le> year \<and> year \<le> 99 then 1900 + year else year);
                    r = rollDay (yr + m div 12) (m mod 12) d
                in if inDateRange r then Some r else None)))"

text \<open>
  The text \<open>`${year}-${month}-${day}`\<close> built from the three getters, the month and the day
  padded to two digits.  The import from a webhook formats an Invalid Date too, whose
  getters all return \<open>NaN\<close>.
\<close>

definition formatDate :: "int \<times> int \<times> int \<Rightarrow> string" where
  "formatDate ymd =
     (case ymd of (y, m, d) \<Rightarrow>
        showInt y @ ''-'' @ padStart2 (showInt (m + 1)) @ ''-'' @ padStart2 (showInt d))"

definition formatDateOrNaN :: "(int \<times> int \<times> int) option \<Rightarrow> string" where
  "formatDateOrNaN r = (case r of None \<Rightarrow> ''NaN-NaN-NaN'' | Some ymd \<Rightarrow> formatDate ymd)"

text \<open>
  \<open>parseInt(s)\<close> without a radix: leading white space and a sign are skipped, a prefix
  \<open>0x\<close> selects base 16, and the longest run of digits is read; no digit gives \<open>NaN\<close>
  (here \<open>None\<close>).
\<close>

definition digitValue :: "nat \<Rightarrow> char \<Rightarrow> nat option" where
  "digitValue radix c =
     (case map_of (zip ''0123456789abcdefABCDEF''
                     [0, 1, 2, 3, 4, 5, 6, 7, 8, 9, 10, 11, 12, 13, 14, 15, 10, 11, 12, 13, 14, 15])
             c of
        None \<Rightarrow> None
      | Some v \<Rightarrow> if v < radix then Some v else None)"

definition readDigits :: "nat \<Rightarrow> string \<Rightarrow> int option" where
  "readDigits radix s =
     (let ds = takeWhile (\<lambda>c. digitValue radix c \<noteq> None) s
      in if ds = [] then None
         else Some (foldl (\<lambda>a c. a * int radix + int (the (digitValue radix c))) 0 ds))"

definition parseInt :: "string \<Rightarrow> int option" where
  "parseInt s =
     (let s1 = dropWhile isWhiteSpace s;
          neg = (take 1 s1 = ''-'');
          s2 = (if take 1 s1 = ''-'' \<or> take 1 s1 = ''+'' then drop 1 s1 else s1);
          hex = (take 2 s2 = ''0x'' \<or> take 2 s2 = ''0X'');
          r = (if hex then readDigits 16 (drop 2 s2) else readDigits 10 s2)
      in map_option (\<lambda>n. if neg then - n else n) r)"


text \<open>
  \<open>new Date(text)\<close> reads a date of the form \<open>YYYY-MM-DD\<close>, the date-only form of the
  Date Time String Format of the language, as midnight of that day in UTC.  \<open>isoDate\<close>
  recognises that form for a day that the month has, and gives (year, month index, day).
\<close>

definition decimalLiteral :: "string \<Rightarrow> bool" where
  "decimalLiteral s \<longleftrightarrow> s \<noteq> [] \<and> list_all (\<lambda>c. digitValue 10 c \<noteq> None) s"

definition isoDate :: "string \<Rightarrow> (int \<times> int \<times> int) option" where
  "isoDate s =
     (case split CHR ''-'' s of
        [ys, ms, ds] \<Rightarrow>
          if length ys = 4 \<and> length ms = 2 \<and> length ds = 2 \<and>
             decimalLiteral ys \<and> decimalLiteral ms \<and> decimalLiteral ds
          then
            (case (readDigits 10 ys, readDigits 10 ms, readDigits 10 ds) of
               (Some y, Some m, Some d) \<Rightarrow>
                 if 1 \<le> m \<and> m \<le> 12 \<and> 1 \<le> d \<and> d \<le> daysInMonth y (m - 1)
                 then Some (y, m - 1, d) else None
             | _ \<Rightarrow> None)
          else None
      | _ \<Rightarrow> None)"


section \<open>What the page takes from its host\<close>

text \<open>
  \<open>Number(s)\<close> and \<open>parseFloat(s)\<close> yield a number that may be \<open>NaN\<close> or infinite;
  \<open>XLSX.SSF.parse_date_code\<close> belongs to the spreadsheet library and yields the fields
  \<open>y\<close>, \<open>m\<close>, \<open>d\<close> of a serial day count, or \<open>null\<close> (here \<open>None\<close>);
  \<open>currentYear\<close> is \<open>new Date().getFullYear()\<close>; \<open>zoneOffset\<close> is the offset of the
  time zone of the host from UTC in minutes, positive to the east
  (\<open>-getTimezoneOffset()\<close>); \<open>dateParse\<close> is \<open>new Date(s)\<close> on a text that is not
  of the form \<open>YYYY-MM-DD\<close>, which the language leaves to the browser: it gives
  \<open>getFullYear()\<close>, \<open>getMonth()\<close> and \<open>getDate()\<close> in the time zone of the host, or
  \<open>None\<close> for an Invalid Date; \<open>validRegExp p\<close> tells whether \<open>new RegExp(p, 'gi')\<close>
  accepts the pattern \<open>p\<close>, where it throws a \<open>SyntaxError\<close> otherwise.
\<close>

datatype jsnum = NaN | Finite rat | PosInfinity | NegInfinity

definition isNaN :: "jsnum \<Rightarrow> bool" where
  "isNaN n = (case n of NaN \<Rightarrow> True | _ \<Rightarrow> False)"

definition greaterThan :: "jsnum \<Rightarrow> rat \<Rightarrow> bool" where
  "greaterThan n k = (case n of Finite r \<Rightarrow> k < r | PosInfinity \<Rightarrow> True | _ \<Rightarrow> False)"

record host =
  currentYear :: int
  zoneOffset :: int
  toNumber :: "string \<Rightarrow> jsnum"
  parseFloat :: "string \<Rightarrow> jsnum"
  parse_date_code :: "jsnum \<Rightarrow> (int \<times> int \<times> int) option"
  dateParse :: "string \<Rightarrow> (int \<times> int \<times> int) option"
  validRegExp :: "string \<Rightarrow> bool"

text \<open>
  \<open>new Date(text)\<close> followed by the three getters.  Midnight UTC of a day is, on the clock
  of the host, \<open>zoneOffset\<close> minutes after midnight of that day: the same day from UTC
  eastwards, the day before to the west of UTC.
\<close>

definition newDateOfText :: "host \<Rightarrow> string \<Rightarrow> (int \<times> int \<times> int) option" where
  "newDateOfText h s =
     (case isoDate s of
        Some (y, m, d) \<Rightarrow> Some (rollDay y m (d + zoneOffset h div 1440))
      | None \<Rightarrow> dateParse h s)"


section \<open>Events and the state of the calendar page\<close>

text \<open>
  An event is the object pushed by \<open>processImportedData\<close>: \<open>{id, date, title, fair, link}\<close>
  (the field \<open>id\<close> is called \<open>eventId\<close> here).  The date is the formatted text
  \<open>YYYY-MM-DD\<close>.
\<close>

record event =
  eventId :: int
  date :: string
  title :: string
  fair :: string
  link :: string

text \<open>
  The global variables of the page script and the parts of the page it reads back:
  the values of the search box, of the fair selector and of the search box of the day
  dialog, the list of events shown in the day dialog, whether that dialog is displayed,
  the item \<open>liveopsEvents\<close> of the local storage, and the timers started with
  \<open>setTimeout\<close> that have not fired yet (their due times in milliseconds) together with
  the time of the page.  Painting the calendar grid (\<open>renderCalendar\<close>) reads the state and
  does not change it; the month on display (\<open>currentDate\<close>) only decides which cells are
  painted and is left out.
\<close>

record app =
  events :: "event list"
  filteredEvents :: "event list"
  highlightedDate :: "string option"
  currentDayEvents :: "event list"
  searchInput :: string
  fairFilter :: string
  fairOptions :: "string list"
  modalSearchInput :: string
  modalEventsList :: "event list"
  dayEventsModalShown :: bool
  liveopsEvents :: "event list option"
  timeouts :: "nat list"
  pageTime :: nat

definition saveEvents :: "app \<Rightarrow> app" where
  "saveEvents st = st\<lparr>liveopsEvents := Some (events st)\<rparr>"

definition deleteEvent :: "int \<Rightarrow> app \<Rightarrow> app" where
  "deleteEvent i st = saveEvents (st\<lparr>events := filter (\<lambda>e. eventId e \<noteq> i) (events st)\<rparr>)"

subsection \<open>Search and the fair filter\<close>

definition handleSearch :: "app \<Rightarrow> app" where
  "handleSearch st =
     (let query = toLowerCase (trim (searchInput st));
          selectedFair = fairFilter st
      in if events st = [] then st\<lparr>filteredEvents := []\<rparr>
         else if query = [] \<and> selectedFair = [] then st\<lparr>filteredEvents := []\<rparr>
         else
           (let results = events st;
                results = (if selectedFair \<noteq> []
                           then filter (\<lambda>e. fair e \<noteq> [] \<and> fair e = selectedFair) results
                           else results);
                results = (if query \<noteq> []
                           then filter (\<lambda>e. includesStr (toLowerCase (title e)) query) results
                           else results)
            in st\<lparr>filteredEvents := results\<rparr>))"

text \<open>The same function in \<open>liveops-calendar/app.js\<close>, a page without a fair selector.\<close>

definition handleSearch_app :: "app \<Rightarrow> app" where
  "handleSearch_app st =
     (let query = toLowerCase (trim (searchInput st))
      in if events st = [] then st\<lparr>filteredEvents := []\<rparr>
         else if query = [] then st\<lparr>filteredEvents := events st\<rparr>
         else st\<lparr>filteredEvents :=
                   filter (\<lambda>e. includesStr (toLowerCase (title e)) query) (events st)\<rparr>)"

definition clearSearch :: "app \<Rightarrow> app" where
  "clearSearch st =
     st\<lparr>searchInput := [], fairFilter := [], filteredEvents := [], highlightedDate := None\<rparr>"

text \<open>
  \<open>populateFairFilter\<close> rebuilds the options of the fair selector: the distinct fairs that
  are not blank, in the order in which they first occur, then sorted.  Replacing the options
  leaves the first one, \<open>All Fairs\<close> with the value \<open>''\<close>, selected.
\<close>

definition populateFairFilter :: "app \<Rightarrow> app" where
  "populateFairFilter st =
     st\<lparr>fairOptions :=
           sort (remdups (filter (\<lambda>f. f \<noteq> [] \<and> trim f \<noteq> []) (map fair (events st)))),
        fairFilter := []\<rparr>"

subsection \<open>The highlight and its timers\<close>

text \<open>
  \<open>navigateToEvent\<close> highlights the date of the event and starts a timer of 5000
  milliseconds whose callback clears the highlight.  \<open>elapse\<close> lets the time of the page
  reach \<open>t\<close>: every timer that is due by then fires and is removed.
\<close>

definition navigateToEvent :: "event \<Rightarrow> app \<Rightarrow> app" where
  "navigateToEvent ev st =
     st\<lparr>highlightedDate := Some (date ev), timeouts := timeouts st @ [pageTime st + 5000]\<rparr>"

definition elapse :: "nat \<Rightarrow> app \<Rightarrow> app" where
  "elapse t st =
     st\<lparr>highlightedDate :=
           (if list_ex (\<lambda>due. due \<le> t) (timeouts st) then None else highlightedDate st),
        timeouts := filter (\<lambda>due. t < due) (timeouts st),
        pageTime := max t (pageTime st)\<rparr>"

subsection \<open>The dialog with the events of one day\<close>

text \<open>
  A cell of the current month is painted with \<open>dayEvents\<close>, the events of
  \<open>filteredEvents\<close> on its date; when there is at least one, a click on the cell opens
  the dialog with that list.
\<close>

text \<open>
  \<open>displayModalEvents(eventsToShow, query = '')\<close> empties the list of the dialog and
  fills it again, item by item.  With a query it builds \<open>new RegExp(`(${query})`, 'gi')\<close>
  for each item before the item is added: when the pattern is not a regular expression, the
  \<open>SyntaxError\<close> of the first item ends the function with the list empty.  The result is
  the error thrown, if any, and the page.  The callers that pass no query go on only when
  nothing was thrown.
\<close>

datatype thrown = SyntaxError

definition displayModalEvents ::
    "host \<Rightarrow> event list \<Rightarrow> string \<Rightarrow> app \<Rightarrow> thrown option \<times> app" where
  "displayModalEvents h eventsToShow query st =
     (if eventsToShow = [] then (None, st\<lparr>modalEventsList := []\<rparr>)
      else if query \<noteq> [] \<and> \<not> validRegExp h (''('' @ query @ '')'')
      then (Some SyntaxError, st\<lparr>modalEventsList := []\<rparr>)
      else (None, st\<lparr>modalEventsList := eventsToShow\<rparr>))"

definition openDayEventsModal :: "host \<Rightarrow> event list \<Rightarrow> app \<Rightarrow> app" where
  "openDayEventsModal h dayEvents st =
     (let st1 = st\<lparr>currentDayEvents := dayEvents, modalSearchInput := []\<rparr>
      in case displayModalEvents h (currentDayEvents st1) [] st1 of
           (Some e, st2) \<Rightarrow> st2
         | (None, st2) \<Rightarrow> st2\<lparr>dayEventsModalShown := True\<rparr>)"

definition dayEvents :: "app \<Rightarrow> string \<Rightarrow> event list" where
  "dayEvents st dateString = filter (\<lambda>e. date e = dateString) (filteredEvents st)"

definition clickDay :: "host \<Rightarrow> string \<Rightarrow> app \<Rightarrow> app" where
  "clickDay h dateString st =
     (if dayEvents st dateString \<noteq> [] then openDayEventsModal h (dayEvents st dateString) st
      else st)"

definition closeDayEventsModal :: "app \<Rightarrow> app" where
  "closeDayEventsModal st =
     st\<lparr>dayEventsModalShown := False, currentDayEvents := [], modalSearchInput := []\<rparr>"

text \<open>
  The search box of the dialog: the matches of the trimmed query, in lower case, among
  \<open>currentDayEvents\<close> are handed to \<open>displayModalEvents\<close> together with the query.
\<close>

definition handleModalSearch :: "host \<Rightarrow> app \<Rightarrow> thrown option \<times> app" where
  "handleModalSearch h st =
     (let query = toLowerCase (trim (modalSearchInput st))
      in if query = [] then displayModalEvents h (currentDayEvents st) [] st
         else displayModalEvents h
                (filter (\<lambda>e. includesStr (toLowerCase (title e)) query) (currentDayEvents st))
                query st)"

text \<open>
  After \<open>handleSearch\<close> has set \<open>filteredEvents\<close> it lists the results, and for each
  of them \<open>highlightMatch\<close> builds \<open>new RegExp(`(${query})`, 'gi')\<close>: with a result to
  list and a query that is not a regular expression the function ends with a
  \<open>SyntaxError\<close>, its effect on the page done.
\<close>

definition handleSearchThrows :: "host \<Rightarrow> app \<Rightarrow> bool" where
  "handleSearchThrows h st \<longleftrightarrow>
     filteredEvents (handleSearch st) \<noteq> [] \<and>
     \<not> validRegExp h (''('' @ toLowerCase (trim (searchInput st)) @ '')'')"

text \<open>
  Deleting from the dialog asks for confirmation first; \<open>confirmed\<close> is the answer.  An
  error thrown on the way ends the function there.
\<close>

definition deleteEventFromModal :: "host \<Rightarrow> bool \<Rightarrow> event \<Rightarrow> app \<Rightarrow> app" where
  "deleteEventFromModal h confirmed ev st =
     (if \<not> confirmed then st
      else
        (let st1 = st\<lparr>events := filter (\<lambda>e. eventId e \<noteq> eventId ev) (events st)\<rparr>;
             st2 = st1\<lparr>currentDayEvents :=
                        filter (\<lambda>e. eventId e \<noteq> eventId ev) (currentDayEvents st1)\<rparr>;
             st3 = saveEvents st2
         in case displayModalEvents h (currentDayEvents st3) [] st3 of
              (Some e, st4) \<Rightarrow> st4
            | (None, st4) \<Rightarrow>
                (let st5 = (if currentDayEvents st4 = [] then closeDayEventsModal st4 else st4)
                 in if trim (searchInput st5) \<noteq> [] \<and> handleSearchThrows h st5
                    then handleSearch st5
                    else populateFairFilter
                           (if trim (searchInput st5) \<noteq> [] then handleSearch st5 else st5))))"

text \<open>
  In \<open>liveops-calendar/app.js\<close> a click on a cell of the current month calls
  \<open>openEventModal\<close> with the date of the cell; the function returns the list it shows.
\<close>

definition openEventModal :: "string \<Rightarrow> app \<Rightarrow> event list" where
  "openEventModal dateString st =
     (if dateString = [] then [] else filter (\<lambda>ev. date ev = dateString) (events st))"


section \<open>Importing rows\<close>

text \<open>
  The date of a row of \<open>processImportedData\<close>: a text that is a number above 1000 is a
  serial day count, any other text goes to \<open>new Date(dateStr)\<close>, whose local fields are
  formatted.  Reading a field of the
  \<open>null\<close> that \<open>parse_date_code\<close> may return throws, and the \<open>catch\<close> around the
  block counts the row as skipped, as the \<open>else\<close> for an Invalid Date does.
\<close>

datatype date_result = Formatted string | InvalidDate | DateError

definition importedDate :: "host \<Rightarrow> string \<Rightarrow> date_result" where
  "importedDate h dateStr =
     (if \<not> isNaN (toNumber h dateStr) \<and> greaterThan (toNumber h dateStr) 1000 then
        (case parse_date_code h (parseFloat h dateStr) of
           None \<Rightarrow> DateError
         | Some (y, m, d) \<Rightarrow>
             (case newDate y (Some (m - 1)) (Some d) of
                None \<Rightarrow> InvalidDate
              | Some ymd \<Rightarrow> Formatted (formatDate ymd)))
      else
        (case newDateOfText h dateStr of
           None \<Rightarrow> InvalidDate
         | Some ymd \<Rightarrow> Formatted (formatDate ymd)))"

text \<open>\<open>row[k] ? row[k].toString().trim() : ''\<close>; a cell beyond the row is \<open>undefined\<close>.\<close>

definition cellText :: "json list \<Rightarrow> nat \<Rightarrow> string" where
  "cellText row k = (if k < length row \<and> truthy (row ! k) then trim (toString (row ! k)) else [])"

text \<open>
  The data is an array of rows, each row an array of cells.  The loop of
  \<open>processImportedData\<close> works on the global \<open>events\<close> and two counters;
  \<open>t\<close> is the value of \<open>Date.now()\<close> when the row with index \<open>i\<close> is reached.
\<close>

record tally =
  evs :: "event list"
  importedCount :: nat
  skippedCount :: nat

definition importRow :: "host \<Rightarrow> int \<Rightarrow> nat \<Rightarrow> json list \<Rightarrow> tally \<Rightarrow> tally" where
  "importRow h t i row acc =
     (if length row < 2 then acc
      else
        (let dateStr = cellText row 0;
             titleStr = cellText row 1;
             fairStr = cellText row 2;
             linkStr = cellText row 3
         in if dateStr = [] \<or> titleStr = [] then acc\<lparr>skippedCount := skippedCount acc + 1\<rparr>
            else
              (case importedDate h dateStr of
                 Formatted formattedDate \<Rightarrow>
                   (if list_ex (\<lambda>e. date e = formattedDate \<and> title e = titleStr) (evs acc)
                    then acc\<lparr>skippedCount := skippedCount acc + 1\<rparr>
                    else acc\<lparr>evs := evs acc @
                                  [\<lparr>eventId = t + int i, date = formattedDate, title = titleStr,
                                    fair = fairStr, link = linkStr\<rparr>],
                              importedCount := importedCount acc + 1\<rparr>)
               | InvalidDate \<Rightarrow> acc\<lparr>skippedCount := skippedCount acc + 1\<rparr>
               | DateError \<Rightarrow> acc\<lparr>skippedCount := skippedCount acc + 1\<rparr>)))"

fun importRows :: "host \<Rightarrow> (nat \<Rightarrow> int) \<Rightarrow> nat \<Rightarrow> json list list \<Rightarrow> tally \<Rightarrow> tally" where
  "importRows h now i [] acc = acc"
| "importRows h now i (row # rows) acc =
     importRows h now (Suc i) rows (importRow h (now i) i row acc)"

definition startIndex :: "json list list \<Rightarrow> nat" where
  "startIndex data =
     (case data of
        [] \<Rightarrow> 0
      | row # _ \<Rightarrow>
          (case row of
             [] \<Rightarrow> 0
           | c # _ \<Rightarrow>
               if truthy c \<and>
                  (includesStr (toLowerCase (toString c)) ''date'' \<or>
                   includesStr (toLowerCase (toString c)) ''when'')
               then 1 else 0))"

definition processImportedData ::
    "host \<Rightarrow> (nat \<Rightarrow> int) \<Rightarrow> json list list \<Rightarrow> app \<Rightarrow> app \<times> nat \<times> nat" where
  "processImportedData h now data st =
     (let acc = importRows h now (startIndex data) (drop (startIndex data) data)
                  \<lparr>evs = events st, importedCount = 0, skippedCount = 0\<rparr>;
          st1 = st\<lparr>events := evs acc\<rparr>
      in if 0 < importedCount acc
         then (populateFairFilter (saveEvents st1), importedCount acc, skippedCount acc)
         else (st1, importedCount acc, skippedCount acc))"

text \<open>
  The same function in \<open>liveops-calendar/app.js\<close>: it reads the first two cells only, its
  events have no fair and no link, and after an import that added something it shows every
  event of the store.
\<close>

definition importRow_app :: "host \<Rightarrow> int \<Rightarrow> nat \<Rightarrow> json list \<Rightarrow> tally \<Rightarrow> tally" where
  "importRow_app h t i row acc =
     (if length row < 2 then acc
      else
        (let dateStr = cellText row 0;
             titleStr = cellText row 1
         in if dateStr = [] \<or> titleStr = [] then acc\<lparr>skippedCount := skippedCount acc + 1\<rparr>
            else
              (case importedDate h dateStr of
                 Formatted formattedDate \<Rightarrow>
                   (if list_ex (\<lambda>e. date e = formattedDate \<and> title e = titleStr) (evs acc)
                    then acc\<lparr>skippedCount := skippedCount acc + 1\<rparr>
                    else acc\<lparr>evs := evs acc @
                                  [\<lparr>eventId = t + int i, date = formattedDate, title = titleStr,
                                    fair = [], link = []\<rparr>],
                              importedCount := importedCount acc + 1\<rparr>)
               | InvalidDate \<Rightarrow> acc\<lparr>skippedCount := skippedCount acc + 1\<rparr>
               | DateError \<Rightarrow> acc\<lparr>skippedCount := skippedCount acc + 1\<rparr>)))"

fun importRows_app :: "host \<Rightarrow> (nat \<Rightarrow> int) \<Rightarrow> nat \<Rightarrow> json list list \<Rightarrow> tally \<Rightarrow> tally" where
  "importRows_app h now i [] acc = acc"
| "importRows_app h now i (row # rows) acc =
     importRows_app h now (Suc i) rows (importRow_app h (now i) i row acc)"

definition processImportedData_app ::
    "host \<Rightarrow> (nat \<Rightarrow> int) \<Rightarrow> json list list \<Rightarrow> app \<Rightarrow> app \<times> nat \<times> nat" where
  "processImportedData_app h now data st =
     (let acc = importRows_app h now (startIndex data) (drop (startIndex data) data)
                  \<lparr>evs = events st, importedCount = 0, skippedCount = 0\<rparr>;
          st1 = st\<lparr>events := evs acc\<rparr>
      in if 0 < importedCount acc
         then ((saveEvents st1)\<lparr>filteredEvents := evs acc\<rparr>, importedCount acc, skippedCount acc)
         else (st1, importedCount acc, skippedCount acc))"

section \<open>Importing from the webhook\<close>

text \<open>
  Reading a property: of an object, the value of the last member with that name, or
  \<open>undefined\<close>; of an array or a primitive value none of the names used here exists.
  Reading a property of \<open>null\<close> throws, which the callers below check first.
\<close>

definition property :: "json \<Rightarrow> string \<Rightarrow> json" where
  "property v k =
     (case v of
        JObj kvs \<Rightarrow> (case map_of (rev kvs) k of None \<Rightarrow> JNull | Some x \<Rightarrow> x)
      | _ \<Rightarrow> JNull)"

definition orElse :: "json \<Rightarrow> json \<Rightarrow> json" where
  \<comment> \<open>\<open>a || b\<close>\<close>
  "orElse a b = (if truthy a then a else b)"

definition eventColumns :: "string list" where
  "eventColumns =
     [''Launches'', ''Fairs'', ''Chip / Rockets Store Sale'', ''PO 1'', ''PO 2'',
      ''SeasonPass'', ''Album Sale'', ''RBS'', ''EBS'', ''Piggy Bank'', ''Wheel Spin'',
      ''Web Shop Sale'', ''Event 1'', ''Event 2'', ''Powerplay Promo'',
      ''Lever/Promo 1'', ''Lever/Promo 2'', ''Bash Wins/Tourney'', ''Rooms Lever'',
      ''DIscounted Card Cost (DCC)'', ''Bash Care Package'', ''Slots Promo'',
      ''Season Pass Challenge'', ''Web'', ''VIP'', ''Bold Beats - I'', ''Bold Beats - II'',
      ''Bold beats - III'', ''CRM Promo-1'', ''CRM Promotions 2'', ''Room Config Changes'']"

definition monthMap :: "string \<Rightarrow> int option" where
  "monthMap =
     map_of [(''Jan'', 0), (''Feb'', 1), (''Mar'', 2), (''Apr'', 3), (''May'', 4), (''Jun'', 5),
             (''Jul'', 6), (''Aug'', 7), (''Sep'', 8), (''Oct'', 9), (''Nov'', 10), (''Dec'', 11)]"

text \<open>
  The date of a webhook record, from a text such as \<open>" 1 Jan, Wed"\<close>: the part before the
  first comma is split at spaces, the first piece is read with \<open>parseInt\<close>, the second is
  looked up in \<open>monthMap\<close>, and both go to \<open>new Date(currentYear, month, day)\<close>, which is
  formatted without a check of its validity.
\<close>

definition dayAndMonth :: "string \<Rightarrow> int option \<times> int option" where
  "dayAndMonth dateStr =
     (let dateParts = trim (case split CHR '','' (trim dateStr) of p # _ \<Rightarrow> p | [] \<Rightarrow> []);
          pieces = filter (\<lambda>p. p \<noteq> []) (split CHR '' '' dateParts);
          day = (case pieces of [] \<Rightarrow> None | d # _ \<Rightarrow> parseInt d);
          month = (case pieces of _ # monthStr # _ \<Rightarrow> monthMap monthStr | _ \<Rightarrow> None)
      in (day, month))"

definition webhookDate :: "host \<Rightarrow> string \<Rightarrow> string" where
  "webhookDate h dateStr =
     (case dayAndMonth dateStr of
        (day, month) \<Rightarrow> formatDateOrNaN (newDate (currentYear h) month day))"

definition acceptedValue :: "json \<Rightarrow> bool" where
  \<comment> \<open>\<open>value && value.toString().trim() && value !== '' && value !== '-'\<close>\<close>
  "acceptedValue v \<longleftrightarrow>
     truthy v \<and> trim (toString v) \<noteq> [] \<and> v \<noteq> JStr [] \<and> v \<noteq> JStr ''-''"

definition dateField :: "json \<Rightarrow> json" where
  \<comment> \<open>\<open>item.Date || item.date || ''\<close>\<close>
  "dateField item = orElse (property item ''Date'') (orElse (property item ''date'') (JStr []))"

definition fairValue :: "json \<Rightarrow> json" where
  \<comment> \<open>\<open>item['Fairs'] || ''\<close>\<close>
  "fairValue item = orElse (property item ''Fairs'') (JStr [])"

definition linkValue :: "json \<Rightarrow> json" where
  \<comment> \<open>\<open>item['Link'] || item['link'] || item['URL'] || item['url'] || item['Ticket Link'] || ''\<close>\<close>
  "linkValue item =
     orElse (property item ''Link'') (orElse (property item ''link'')
       (orElse (property item ''URL'') (orElse (property item ''url'')
         (orElse (property item ''Ticket Link'') (JStr [])))))"

text \<open>
  The rows that one record of the webhook adds to \<open>jsonData\<close>.  A date that is not a
  text has no \<open>trim\<close>: the call throws inside the \<open>try\<close> of the record, which then adds
  nothing.
\<close>

definition webhookRows :: "host \<Rightarrow> json \<Rightarrow> json list list" where
  "webhookRows h item =
     (let dateStr = dateField item
      in if \<not> truthy dateStr then []
         else
           (case dateStr of
              JStr s \<Rightarrow>
                map (\<lambda>colName.
                       [JStr (webhookDate h s),
                        JStr (colName @ '': '' @ toString (property item colName)),
                        fairValue item, linkValue item])
                  (filter (\<lambda>colName. acceptedValue (property item colName)) eventColumns)
            | _ \<Rightarrow> []))"

text \<open>
  The response of the webhook after \<open>response.json()\<close>.  An error thrown anywhere in
  \<open>importFromWebhook\<close> ends in its \<open>catch\<close>, which reports it and imports nothing:
  the error for a response of another shape, and the one thrown when the date of a record
  that is \<open>null\<close> is read.  When the records yield no row at all, the function reports
  that and stops.
\<close>

datatype failure = UnexpectedDataFormat | TypeError

definition dataArrayOf :: "json \<Rightarrow> failure + json list" where
  "dataArrayOf data =
     (case data of
        JArr xs \<Rightarrow> Inr xs
      | JNull \<Rightarrow> Inl TypeError
      | _ \<Rightarrow>
          (case property data ''data'' of
             JArr xs \<Rightarrow> Inr xs
           | _ \<Rightarrow>
               (case property data ''body'' of
                  JArr ys \<Rightarrow> Inr ys
                | _ \<Rightarrow> Inl UnexpectedDataFormat)))"

datatype webhook_result = Failed failure | NoValidEvents | Processed nat nat

definition importFromWebhook ::
    "host \<Rightarrow> (nat \<Rightarrow> int) \<Rightarrow> json \<Rightarrow> app \<Rightarrow> webhook_result \<times> app" where
  "importFromWebhook h now data st =
     (case dataArrayOf data of
        Inl e \<Rightarrow> (Failed e, st)
      | Inr dataArray \<Rightarrow>
          if list_ex (\<lambda>item. item = JNull) dataArray then (Failed TypeError, st)
          else
            (let jsonData = concat (map (webhookRows h) dataArray)
             in if jsonData = [] then (NoValidEvents, st)
                else
                  (case processImportedData h now jsonData st of
                     (st', imported, skipped) \<Rightarrow> (Processed imported skipped, st'))))"

section \<open>Loading the events of the sheet\<close>

text \<open>
  When the page of \<open>liveops-calendar/app.js\<close> starts, \<open>init\<close> calls
  \<open>loadEventsFromLiveopsJson\<close>, which fetches \<open>liveops.json\<close>, the rows of the sheet.

  \<open>normalizeLiveopsDate\<close> reads the column \<open>JUMP TO TODAY\<close>, a text such as
  \<open>" 1 Jan, Wed"\<close>: the part before the first comma, a space and the current year go to
  \<open>new Date(text)\<close>; the result is \<open>null\<close> (here \<open>None\<close>) for a value that is not a
  text, for a blank text and for an Invalid Date.
\<close>

definition normalizeLiveopsDate :: "host \<Rightarrow> json \<Rightarrow> string option" where
  "normalizeLiveopsDate h raw =
     (case raw of
        JStr s \<Rightarrow>
          if s = [] \<or> trim s = [] then None
          else
            (let dayMonth = trim (case split CHR '','' (trim s) of p # _ \<Rightarrow> p | [] \<Rightarrow> [])
             in map_option formatDate
                  (newDateOfText h (dayMonth @ '' '' @ showInt (currentYear h))))
      | _ \<Rightarrow> None)"

text \<open>
  One row of the file, at position \<open>index\<close>.  The row, or its member \<open>json\<close> when it has
  one, gives the columns; reading a column of \<open>null\<close> throws.  A row whose date cannot be
  read yields \<open>null\<close> (here \<open>None\<close>).  The title joins the columns that are there, and
  the id is the position of the row.  The links \<open>doc\<close> and \<open>clickup\<close> that such an
  event carries besides are computed from two other columns, without an effect on the rest,
  and are not modelled.
\<close>

definition labelled :: "string \<Rightarrow> json \<Rightarrow> string list" where
  \<comment> \<open>\<open>if (value) parts.push(`${label}${value}`)\<close>\<close>
  "labelled label v = (if truthy v then [label @ toString v] else [])"

definition liveopsRow :: "host \<Rightarrow> nat \<Rightarrow> json \<Rightarrow> failure + event option" where
  "liveopsRow h index row =
     (let data = (if truthy row \<and> truthy (property row ''json'') then property row ''json''
                  else row)
      in if data = JNull then Inl TypeError
         else
           (case normalizeLiveopsDate h (property data ''JUMP TO TODAY'') of
              None \<Rightarrow> Inr None
            | Some normalizedDate \<Rightarrow>
                (let parts = labelled [] (property data ''JUMP TO TODAY'') @
                             labelled [] (property data ''Holiday List'') @
                             labelled ''On-call: '' (property data ''ON-CALL TEAM'') @
                             labelled ''Revenue: '' (property data ''REVENUE'') @
                             labelled ''Perf: '' (property data ''PERFORMANCE'');
                     joined = joinWith '' | '' parts
                 in Inr (Some \<lparr>eventId = int index, date = normalizedDate,
                                title = (if joined = [] then normalizedDate else joined),
                                fair = [], link = []\<rparr>))))"

text \<open>
  The response is \<open>None\<close> when the file cannot be fetched or is not JSON.  Every error
  ends in the \<open>catch\<close> of the function, which only reports it: a file that is not an
  array has no \<open>map\<close>, and a row may throw.  When at least one row yields an event, the
  events of the rows replace the store and what the calendar shows, and are saved.
\<close>

definition loadEventsFromLiveopsJson :: "host \<Rightarrow> json option \<Rightarrow> app \<Rightarrow> app" where
  "loadEventsFromLiveopsJson h response st =
     (case response of
        Some (JArr rows) \<Rightarrow>
          (let mapped = map (\<lambda>(index, row). liveopsRow h index row) (enumerate 0 rows)
           in if list_ex isl mapped then st
              else
                (let mappedEvents = concat (map (\<lambda>r. case r of Inr (Some e) \<Rightarrow> [e] | _ \<Rightarrow> []) mapped)
                 in if mappedEvents = [] then st
                    else saveEvents (st\<lparr>events := mappedEvents, filteredEvents := mappedEvents\<rparr>)))
      | _ \<Rightarrow> st)"

section \<open>A host for examples\<close>

text \<open>
  A browser in UTC in the year 2025, cut down to what the examples below need:
  \<open>Number\<close> and \<open>parseFloat\<close> on unsigned decimal literals, \<open>parse_date_code\<close> on whole
  day counts of the 1900 date system, \<open>new Date(s)\<close> on a day, a month name and a year
  of four digits such as \<open>5 Mar 2025\<close>, and \<open>RegExp\<close> on the patterns made of letters,
  digits, blanks, colons, hyphens and parentheses, which it accepts when the parentheses
  match (a browser reads more dates and more patterns).
\<close>

definition dayMonthYear :: "string \<Rightarrow> (int \<times> int \<times> int) option" where
  "dayMonthYear s =
     (case filter (\<lambda>p. p \<noteq> []) (split CHR '' '' s) of
        [ds, mon, ys] \<Rightarrow>
          if decimalLiteral ds \<and> decimalLiteral ys \<and> length ys = 4
          then
            (case (readDigits 10 ds, monthMap mon, readDigits 10 ys) of
               (Some d, Some m, Some y) \<Rightarrow>
                 if 1 \<le> d \<and> d \<le> daysInMonth y m then Some (y, m, d) else None
             | _ \<Rightarrow> None)
          else None
      | _ \<Rightarrow> None)"

fun balanced :: "nat \<Rightarrow> string \<Rightarrow> bool" where
  "balanced n [] = (n = 0)"
| "balanced n (c # s) =
     (if c = CHR ''('' then balanced (Suc n) s
      else if c = CHR '')'' then 0 < n \<and> balanced (n - 1) s
      else balanced n s)"

definition plainPattern :: "string \<Rightarrow> bool" where
  "plainPattern p \<longleftrightarrow>
     list_all (\<lambda>c. c \<in> set ''abcdefghijklmnopqrstuvwxyzABCDEFGHIJKLMNOPQRSTUVWXYZ0123456789 :-()'') p \<and>
     balanced 0 p"

definition decimalNumber :: "string \<Rightarrow> jsnum" where
  "decimalNumber s =
     (if decimalLiteral s
      then (case readDigits 10 s of None \<Rightarrow> NaN | Some n \<Rightarrow> Finite (of_int n))
      else NaN)"

definition serialDate :: "jsnum \<Rightarrow> (int \<times> int \<times> int) option" where
  "serialDate v =
     (case v of
        Finite r \<Rightarrow>
          if 2958465 < r \<or> r < 0 then None
          else if \<lfloor>r\<rfloor> = 60 then Some (1900, 2, 29)
          else if \<lfloor>r\<rfloor> = 0 then Some (1900, 1, 0)
          else
            (case rollDay 1900 0 (if 60 < \<lfloor>r\<rfloor> then \<lfloor>r\<rfloor> - 1 else \<lfloor>r\<rfloor>) of
               (y, m, d) \<Rightarrow> Some (y, m + 1, d))
      | _ \<Rightarrow> None)"

definition exampleHost :: host where
  "exampleHost =
     \<lparr>currentYear = 2025, zoneOffset = 0, toNumber = decimalNumber,
      parseFloat = decimalNumber, parse_date_code = serialDate, dateParse = dayMonthYear,
      validRegExp = plainPattern\<rparr>"

text \<open>The same browser in a zone five hours to the west of UTC.\<close>

definition westHost :: host where
  "westHost = exampleHost\<lparr>zoneOffset := - 300\<rparr>"

definition emptyPage :: app where
  "emptyPage =
     \<lparr>events = [], filteredEvents = [], highlightedDate = None, currentDayEvents = [],
      searchInput = [], fairFilter = [], fairOptions = [], modalSearchInput = [],
      modalEventsList = [], dayEventsModalShown = False, liveopsEvents = None,
      timeouts = [], pageTime = 0\<rparr>"


section \<open>Sequences of operations on the store\<close>

text \<open>
  The deduplication key of an event, and the store in which no two events share it.
\<close>

definition dedupKey :: "event \<Rightarrow> string \<times> string" where
  "dedupKey e = (date e, title e)"

definition uniqueKeys :: "event list \<Rightarrow> bool" where
  "uniqueKeys es = distinct (map dedupKey es)"

text \<open>
  The key under which \<open>processImportedData\<close> looks a row up in \<open>events\<close>, for a row that
  gets as far as that test: two cells at least, a date and a title that are not blank, and a
  date that the host can read.
\<close>

definition candidateKey :: "host \<Rightarrow> json list \<Rightarrow> (string \<times> string) option" where
  "candidateKey h row =
     (if length row < 2 \<or> cellText row 0 = [] \<or> cellText row 1 = [] then None
      else (case importedDate h (cellText row 0) of
              Formatted formattedDate \<Rightarrow> Some (formattedDate, cellText row 1)
            | _ \<Rightarrow> None))"

text \<open>
  A row that yields a candidate in the words of the specification: its date and its title
  are there and not blank.  The code is compared with it below.
\<close>

definition specCandidate :: "json list \<Rightarrow> bool" where
  "specCandidate row \<longleftrightarrow> cellText row 0 \<noteq> [] \<and> cellText row 1 \<noteq> []"

text \<open>
  What changes the store: an import of rows from a file or from pasted text (in either
  variant of the page), an import from the webhook, the deletion of an event, and the
  loading of \<open>liveops.json\<close> when the page of \<open>liveops-calendar/app.js\<close> starts.  Every
  import comes with the readings of the clock during its loop.
\<close>

datatype action =
    ImportRows "nat \<Rightarrow> int" "json list list"
  | ImportRowsApp "nat \<Rightarrow> int" "json list list"
  | ImportWebhook "nat \<Rightarrow> int" json
  | DeleteEvent int
  | LoadLiveops "json option"

fun perform :: "host \<Rightarrow> action \<Rightarrow> app \<Rightarrow> app" where
  "perform h (ImportRows now data) st = fst (processImportedData h now data st)"
| "perform h (ImportRowsApp now data) st = fst (processImportedData_app h now data st)"
| "perform h (ImportWebhook now data) st = snd (importFromWebhook h now data st)"
| "perform h (DeleteEvent i) st = deleteEvent i st"
| "perform h (LoadLiveops response) st = loadEventsFromLiveopsJson h response st"

fun loadsFile :: "action \<Rightarrow> bool" where
  "loadsFile (LoadLiveops response) = True"
| "loadsFile a = False"

fun performAll :: "host \<Rightarrow> action list \<Rightarrow> app \<Rightarrow> app" where
  "performAll h [] st = st"
| "performAll h (a # as) st = performAll h as (perform h a st)"

section \<open>Example data\<close>

definition saleA :: event where
  "saleA = \<lparr>eventId = 1, date = ''2025-03-05'', title = ''PO 1: Sale A'',
            fair = ''SpringFair'', link = []\<rparr>"

definition albumB :: event where
  "albumB = \<lparr>eventId = 2, date = ''2025-03-05'', title = ''Album Sale: B'',
             fair = [], link = ''https://example.org/b''\<rparr>"

definition promoC :: event where
  "promoC = \<lparr>eventId = 3, date = ''2025-04-01'', title = ''PO 2: Promo C'',
             fair = ''SpringFair'', link = []\<rparr>"

definition samplePage :: app where
  "samplePage = emptyPage\<lparr>events := [saleA, albumB, promoC], searchInput := ''sale''\<rparr>"

definition firstBatch :: "json list list" where
  "firstBatch =
     [[JStr ''Date'', JStr ''Title'', JStr ''Fair'', JStr ''Link''],
      [JStr ''2025-03-05'', JStr ''PO 1: Sale A'', JStr ''SpringFair''],
      [JStr ''2025-03-05'', JStr ''PO 1: Sale A'', JStr ''OtherFair'', JStr ''https://example.org/a''],
      [JStr ''2025-03-06''],
      [JStr [], JStr ''Untitled day'']]"

definition secondBatch :: "json list list" where
  "secondBatch =
     [[JStr ''2025-03-05'', JStr '' PO 1: Sale A '', JStr [], JStr ''https://example.org/z''],
      [JStr ''2025-04-01'', JStr ''PO 2: Promo C'']]"

definition springRecord :: json where
  "springRecord =
     JObj [(''Date'', JStr '' 5 Mar, Tue''), (''Fairs'', JStr ''SpringFair''),
           (''PO 1'', JStr ''Sale A''), (''PO 2'', JStr ''-'')]"

definition idlePage :: app where
  "idlePage = emptyPage\<lparr>events := [saleA, albumB, promoC]\<rparr>"

definition searchingPage :: app where
  "searchingPage = emptyPage\<lparr>events := [saleA, albumB, promoC], searchInput := '' PO ''\<rparr>"

definition restingPage :: app where
  "restingPage = emptyPage\<lparr>events := [saleA, promoC]\<rparr>"

definition statusReply :: json where
  "statusReply = JObj [(''status'', JStr ''ok''), (''rows'', JArr [springRecord])]"

definition dataReply :: json where
  "dataReply = JObj [(''data'', JArr [springRecord])]"

definition bodyReply :: json where
  "bodyReply = JObj [(''data'', JStr ''none''), (''body'', JArr [springRecord])]"

definition serialRecord :: json where
  "serialRecord = JObj [(''Date'', JNum 45643), (''PO 1'', JStr ''Sale A'')]"

definition quietRecord :: json where
  "quietRecord =
     JObj [(''Date'', JStr ''12 Dec''), (''Event 1'', JStr ''  ''), (''Event 2'', JStr '' - ''),
           (''VIP'', JNum 0), (''Web'', JNum 7), (''Link'', JStr ''https://example.org/w'')]"

definition sheetRow :: json where
  "sheetRow = JObj [(''JUMP TO TODAY'', JStr '' 5 Mar, Tue''), (''ON-CALL TEAM'', JStr ''Ops'')]"

definition sheetFile :: json where
  "sheetFile = JArr [sheetRow, sheetRow]"

definition cardD :: event where
  "cardD = \<lparr>eventId = 4, date = ''2025-03-05'', title = ''DIscounted Card Cost (DCC): Half'',
            fair = [], link = []\<rparr>"

definition dayDialog :: app where
  "dayDialog =
     emptyPage\<lparr>events := [saleA, cardD], currentDayEvents := [saleA, cardD],
               modalSearchInput := '' Sale '', modalEventsList := [saleA, cardD],
               dayEventsModalShown := True\<rparr>"


definition morningBatch :: "json list list" where
  "morningBatch =
     [[JStr ''2025-03-05'', JStr ''PO 1: Sale A''], [JStr ''2025-03-06'', JStr ''PO 1: Sale B'']]"

definition laterBatch :: "json list list" where
  "laterBatch = [[JStr ''2025-03-07'', JStr ''PO 1: Sale C'']]"

section \<open>Properties\<close>

subsection \<open>Auxiliary facts\<close>

lemma saveEvents_fields:
  "events (saveEvents s) = events s"
  "liveopsEvents (saveEvents s) = Some (events s)"
  "searchInput (saveEvents s) = searchInput s"
  "currentDayEvents (saveEvents s) = currentDayEvents s"
  by (simp_all add: saveEvents_def)

lemma handleSearch_fields:
  "events (handleSearch s) = events s"
  "liveopsEvents (handleSearch s) = liveopsEvents s"
  "searchInput (handleSearch s) = searchInput s"
  by (simp_all add: handleSearch_def Let_def)

lemma populateFairFilter_fields:
  "events (populateFairFilter s) = events s"
  "liveopsEvents (populateFairFilter s) = liveopsEvents s"
  "searchInput (populateFairFilter s) = searchInput s"
  by (simp_all add: populateFairFilter_def)

lemma closeDayEventsModal_fields:
  "events (closeDayEventsModal s) = events s"
  "liveopsEvents (closeDayEventsModal s) = liveopsEvents s"
  "searchInput (closeDayEventsModal s) = searchInput s"
  by (simp_all add: closeDayEventsModal_def)

lemma displayModalEvents_default:
  "displayModalEvents h es [] s = (None, s\<lparr>modalEventsList := es\<rparr>)"
  by (simp add: displayModalEvents_def)

lemma displayModalEvents_fields:
  "events (s\<lparr>modalEventsList := es\<rparr>) = events s"
  "liveopsEvents (s\<lparr>modalEventsList := es\<rparr>) = liveopsEvents s"
  "searchInput (s\<lparr>modalEventsList := es\<rparr>) = searchInput s"
  "currentDayEvents (s\<lparr>modalEventsList := es\<rparr>) = currentDayEvents s"
  by simp_all

lemmas page_fields = saveEvents_fields handleSearch_fields populateFairFilter_fields
  closeDayEventsModal_fields displayModalEvents_fields

lemma deleteEventFromModal_fields:
  "events (deleteEventFromModal h True ev st) = filter (\<lambda>e. eventId e \<noteq> eventId ev) (events st)"
  "liveopsEvents (deleteEventFromModal h True ev st) =
      Some (filter (\<lambda>e. eventId e \<noteq> eventId ev) (events st))"
  "searchInput (deleteEventFromModal h True ev st) = searchInput st"
  by (simp_all add: deleteEventFromModal_def Let_def displayModalEvents_default page_fields)

lemma deleteEvent_fields:
  "events (deleteEvent i st) = filter (\<lambda>e. eventId e \<noteq> i) (events st)"
  "liveopsEvents (deleteEvent i st) = Some (filter (\<lambda>e. eventId e \<noteq> i) (events st))"
  "searchInput (deleteEvent i st) = searchInput st"
  by (simp_all add: deleteEvent_def saveEvents_def)

lemma list_ex_key: "list_ex (\<lambda>e. date e = d \<and> title e = t) es \<longleftrightarrow> (d, t) \<in> dedupKey ` set es"
  by (auto simp: list_ex_iff dedupKey_def)

lemma importRow_cases:
  "importRow h t i row acc =
     (if length row < 2 then acc
      else if cellText row 0 = [] \<or> cellText row 1 = [] then acc\<lparr>skippedCount := skippedCount acc + 1\<rparr>
      else (case candidateKey h row of
              None \<Rightarrow> acc\<lparr>skippedCount := skippedCount acc + 1\<rparr>
            | Some k \<Rightarrow>
                if k \<in> dedupKey ` set (evs acc) then acc\<lparr>skippedCount := skippedCount acc + 1\<rparr>
                else acc\<lparr>evs := evs acc @ [\<lparr>eventId = t + int i, date = fst k, title = snd k,
                                              fair = cellText row 2, link = cellText row 3\<rparr>],
                          importedCount := importedCount acc + 1\<rparr>))"
  by (simp add: importRow_def candidateKey_def Let_def list_ex_key split: date_result.splits)

lemma importRow_counts:
  "importedCount (importRow h t i row acc) + skippedCount (importRow h t i row acc) =
     importedCount acc + skippedCount acc + (if 2 \<le> length row then 1 else 0)"
  by (simp add: importRow_cases split: option.splits)

lemma importRows_counts:
  "importedCount (importRows h now i rows acc) + skippedCount (importRows h now i rows acc) =
     importedCount acc + skippedCount acc + length (filter (\<lambda>row. 2 \<le> length row) rows)"
  by (induction rows arbitrary: i acc) (simp_all add: importRow_counts)

lemma processImportedData_counts:
  "fst (snd (processImportedData h now data st)) = importedCount (importRows h now (startIndex data) (drop (startIndex data) data)
            \<lparr>evs = events st, importedCount = 0, skippedCount = 0\<rparr>)"
  "snd (snd (processImportedData h now data st)) = skippedCount (importRows h now (startIndex data) (drop (startIndex data) data)
            \<lparr>evs = events st, importedCount = 0, skippedCount = 0\<rparr>)"
  by (simp_all add: processImportedData_def Let_def)

lemma processImportedData_sum:
  "fst (snd (processImportedData h now data st)) + snd (snd (processImportedData h now data st)) =
     length (filter (\<lambda>row. 2 \<le> length row) (drop (startIndex data) data))"
  by (simp add: processImportedData_counts importRows_counts)

lemma importRow_unique: "uniqueKeys (evs acc) \<Longrightarrow> uniqueKeys (evs (importRow h t i row acc))"
  by (simp add: importRow_cases uniqueKeys_def dedupKey_def split: option.splits)

lemma importRows_unique:
  "uniqueKeys (evs acc) \<Longrightarrow> uniqueKeys (evs (importRows h now i rows acc))"
  by (induction rows arbitrary: i acc) (simp_all add: importRow_unique)

lemma importRow_prefix: "prefix (evs acc) (evs (importRow h t i row acc))"
  by (simp add: importRow_cases split: option.splits)

lemma importRows_prefix: "prefix (evs acc) (evs (importRows h now i rows acc))"
proof (induction rows arbitrary: i acc)
  case Nil
  show ?case by simp
next
  case (Cons row rows)
  have "prefix (evs acc) (evs (importRow h (now i) i row acc))"
    by (rule importRow_prefix)
  also have "prefix \<dots> (evs (importRows h now (Suc i) rows (importRow h (now i) i row acc)))"
    by (rule Cons.IH)
  finally show ?case by simp
qed

lemma processImportedData_events:
  "events (fst (processImportedData h now data st)) =
     evs (importRows h now (startIndex data) (drop (startIndex data) data)
            \<lparr>evs = events st, importedCount = 0, skippedCount = 0\<rparr>)"
  by (simp add: processImportedData_def Let_def populateFairFilter_def saveEvents_def)

lemma processImportedData_unique:
  "uniqueKeys (events st) \<Longrightarrow> uniqueKeys (events (fst (processImportedData h now data st)))"
  by (simp add: processImportedData_events importRows_unique)

lemma importFromWebhook_page:
  "snd (importFromWebhook h now data st) = st \<or>
   (\<exists>jsonData. snd (importFromWebhook h now data st) =
                 fst (processImportedData h now jsonData st))"
proof (cases "dataArrayOf data")
  case (Inl e)
  then show ?thesis by (simp add: importFromWebhook_def)
next
  case (Inr dataArray)
  show ?thesis
  proof (cases "list_ex (\<lambda>item. item = JNull) dataArray \<or>
                concat (map (webhookRows h) dataArray) = []")
    case True
    with Inr show ?thesis by (auto simp: importFromWebhook_def Let_def)
  next
    case False
    with Inr have "snd (importFromWebhook h now data st) =
        fst (processImportedData h now (concat (map (webhookRows h) dataArray)) st)"
      by (auto simp: importFromWebhook_def Let_def split: prod.splits)
    then show ?thesis by blast
  qed
qed

lemma importFromWebhook_unique:
  "uniqueKeys (events st) \<Longrightarrow> uniqueKeys (events (snd (importFromWebhook h now data st)))"
  using importFromWebhook_page [of h now data st] processImportedData_unique [of st h now]
  by auto

lemma deleteEvent_unique: "uniqueKeys (events st) \<Longrightarrow> uniqueKeys (events (deleteEvent i st))"
  by (simp add: deleteEvent_def saveEvents_def uniqueKeys_def distinct_map_filter)

lemma cellText_take: "k < 2 \<Longrightarrow> cellText (take 2 row) k = cellText row k"
  by (simp add: cellText_def)

lemma cellText_beyond: "length row \<le> k \<Longrightarrow> cellText row k = []"
  by (simp add: cellText_def)

lemma importRow_app_take: "importRow_app h t i row acc = importRow h t i (take 2 row) acc"
  by (simp add: importRow_app_def importRow_def Let_def cellText_take cellText_beyond)

lemma importRows_app_take:
  "importRows_app h now i rows acc = importRows h now i (map (take 2) rows) acc"
  by (induction rows arbitrary: i acc) (simp_all add: importRow_app_take)

lemma processImportedData_app_events:
  "events (fst (processImportedData_app h now data st)) =
     evs (importRows h now (startIndex data) (map (take 2) (drop (startIndex data) data))
            \<lparr>evs = events st, importedCount = 0, skippedCount = 0\<rparr>)"
  by (simp add: processImportedData_app_def Let_def saveEvents_def importRows_app_take)

lemma processImportedData_app_unique:
  "uniqueKeys (events st) \<Longrightarrow> uniqueKeys (events (fst (processImportedData_app h now data st)))"
  by (simp add: processImportedData_app_events importRows_unique)

lemma processImportedData_app_sum:
  "fst (snd (processImportedData_app h now data st)) +
     snd (snd (processImportedData_app h now data st)) =
     length (filter (\<lambda>row. 2 \<le> length row) (drop (startIndex data) data))"
proof -
  have "length (filter (\<lambda>row. 2 \<le> length row) (map (take 2) rows)) =
      length (filter (\<lambda>row. 2 \<le> length row) rows)" for rows :: "json list list"
    by (induction rows) auto
  then show ?thesis
    using importRows_counts [of h now "startIndex data" "map (take 2) (drop (startIndex data) data)"
        "\<lparr>evs = events st, importedCount = 0, skippedCount = 0\<rparr>"]
    by (simp add: processImportedData_app_def Let_def importRows_app_take)
qed

lemma processImportedData_app_prefix:
  "prefix (events st) (events (fst (processImportedData_app h now data st)))"
  using importRows_prefix [of "\<lparr>evs = events st, importedCount = 0, skippedCount = 0\<rparr>"]
  by (simp add: processImportedData_app_events)

lemma perform_unique:
  "uniqueKeys (events st) \<Longrightarrow> \<not> loadsFile a \<Longrightarrow> uniqueKeys (events (perform h a st))"
  by (cases a)
     (simp_all add: processImportedData_unique processImportedData_app_unique importFromWebhook_unique
        deleteEvent_unique)

lemma performAll_unique:
  "uniqueKeys (events st) \<Longrightarrow> list_all (\<lambda>a. \<not> loadsFile a) acts \<Longrightarrow>
   uniqueKeys (events (performAll h acts st))"
  by (induction acts arbitrary: st) (simp_all add: perform_unique)

lemma showNat_digits: "set (showNat n) \<subseteq> set ''0123456789''"
proof (induction n rule: showNat.induct)
  case (1 n)
  have d: "''0123456789'' ! k \<in> set ''0123456789''" if "k < 10" for k
    using that nth_mem [of k "''0123456789''"] by simp
  show ?case
  proof (cases "n < 10")
    case True
    then show ?thesis using d [of n] by (subst showNat.simps) simp
  next
    case False
    then show ?thesis using 1 d [of "n mod 10"] by (subst showNat.simps) simp
  qed
qed

lemma showInt_sign: "set (showInt i) \<subseteq> insert CHR ''-'' (set (showNat (nat \<bar>i\<bar>)))"
  by (auto simp: showInt_def)

lemma showInt_chars: "set (showInt i) \<subseteq> set ''-0123456789''"
proof -
  have "set (showInt i) \<subseteq> insert CHR ''-'' (set (showNat (nat \<bar>i\<bar>)))"
    by (rule showInt_sign)
  also have "\<dots> \<subseteq> insert CHR ''-'' (set ''0123456789'')"
    using showNat_digits [of "nat \<bar>i\<bar>"] by (rule insert_mono)
  also have "\<dots> = set ''-0123456789''"
    by simp
  finally show ?thesis .
qed

lemma padStart2_chars: "set (padStart2 s) \<subseteq> insert CHR ''0'' (set s)"
  by (auto simp: padStart2_def)

lemma formatDate_chars: "set (formatDate ymd) \<subseteq> set ''-0123456789''"
proof -
  obtain y m d where ymd: "ymd = (y, m, d)" by (cases ymd) auto
  have p: "set (padStart2 (showInt k)) \<subseteq> set ''-0123456789''" for k
  proof -
    have "set (padStart2 (showInt k)) \<subseteq> insert CHR ''0'' (set (showInt k))"
      by (rule padStart2_chars)
    also have "\<dots> \<subseteq> insert CHR ''0'' (set ''-0123456789'')"
      using showInt_chars [of k] by (rule insert_mono)
    also have "\<dots> = set ''-0123456789''"
      by auto
    finally show ?thesis .
  qed
  have "set (formatDate ymd) =
      set (showInt y) \<union> (set (padStart2 (showInt (m + 1))) \<union> (set (padStart2 (showInt d)) \<union> {CHR ''-''}))"
    by (auto simp: ymd formatDate_def)
  also have "\<dots> \<subseteq> set ''-0123456789''"
    by (intro Un_least showInt_chars p) simp
  finally show ?thesis .
qed

lemma webhookDate_chars: "set (webhookDate h s) \<subseteq> set ''-0123456789Na''"
proof -
  have nan: "set (formatDateOrNaN r) \<subseteq> set ''-0123456789Na''" for r
  proof (cases r)
    case None
    then show ?thesis by (simp add: formatDateOrNaN_def)
  next
    case (Some ymd)
    have "set (formatDate ymd) \<subseteq> set ''-0123456789''" by (rule formatDate_chars)
    also have "\<dots> \<subseteq> set ''-0123456789Na''" by auto
    finally show ?thesis using Some by (simp only: formatDateOrNaN_def option.case)
  qed
  obtain day month where dm: "dayAndMonth s = (day, month)"
    by (cases "dayAndMonth s")
  show ?thesis
    using nan [of "newDate (currentYear h) month day"]
    by (simp only: webhookDate_def dm prod.case)
qed

lemma includesStr_hd: "includesStr s (c # q) \<Longrightarrow> c \<in> set s"
  by (induction s) (auto simp: prefix_Cons)

lemma lowerChar_webhookDate:
  "b \<in> set ''-0123456789Na'' \<Longrightarrow> lowerChar b \<noteq> CHR ''d'' \<and> lowerChar b \<noteq> CHR ''w''"
  unfolding list.set insert_iff empty_iff
  by (elim disjE FalseE) (simp_all add: lowerChar_def)

lemma toLowerCase_webhookDate:
  "CHR ''d'' \<notin> set (toLowerCase (webhookDate h s)) \<and> CHR ''w'' \<notin> set (toLowerCase (webhookDate h s))"
proof -
  have low: "lowerChar b \<noteq> CHR ''d'' \<and> lowerChar b \<noteq> CHR ''w''"
    if "b \<in> set (webhookDate h s)" for b
  proof -
    from that webhookDate_chars [of h s] have "b \<in> set ''-0123456789Na''" by (rule subsetD [rotated])
    then show ?thesis by (rule lowerChar_webhookDate)
  qed
  have "c \<noteq> CHR ''d'' \<and> c \<noteq> CHR ''w''" if "c \<in> set (toLowerCase (webhookDate h s))" for c
  proof -
    from that obtain b where "b \<in> set (webhookDate h s)" and "c = lowerChar b"
      unfolding toLowerCase_def set_map by (rule imageE)
    with low [of b] show ?thesis by simp
  qed
  then show ?thesis by blast
qed

lemma webhookRows_shape:
  "row \<in> set (webhookRows h item) \<Longrightarrow> \<exists>s c f l. row = [JStr (webhookDate h s), c, f, l]"
  by (auto simp: webhookRows_def Let_def split: json.splits if_splits)

lemma startIndex_webhook:
  assumes "\<forall>row \<in> set data. \<exists>s c f l. row = [JStr (webhookDate h s), c, f, l]"
  shows "startIndex data = 0"
proof (cases data)
  case Nil
  then show ?thesis by (simp add: startIndex_def)
next
  case (Cons row rest)
  with assms obtain s c f l where row: "row = [JStr (webhookDate h s), c, f, l]" by auto
  have "\<not> includesStr (toLowerCase (webhookDate h s)) ''date''"
    using includesStr_hd [of "toLowerCase (webhookDate h s)" "CHR ''d''" "''ate''"]
      toLowerCase_webhookDate [of h s] by blast
  moreover have "\<not> includesStr (toLowerCase (webhookDate h s)) ''when''"
    using includesStr_hd [of "toLowerCase (webhookDate h s)" "CHR ''w''" "''hen''"]
      toLowerCase_webhookDate [of h s] by blast
  ultimately show ?thesis using Cons row by (simp add: startIndex_def)
qed

lemma importFromWebhook_counts:
  assumes "importFromWebhook h now data st = (Processed imported skipped, st')"
    and "dataArrayOf data = Inr dataArray"
  shows "imported + skipped = length (concat (map (webhookRows h) dataArray))"
proof -
  let ?rows = "concat (map (webhookRows h) dataArray)"
  have shape: "\<forall>row \<in> set ?rows. \<exists>s c f l. row = [JStr (webhookDate h s), c, f, l]"
    using webhookRows_shape by auto
  have "2 \<le> length row" if "row \<in> set ?rows" for row
  proof -
    from shape that obtain s c f l where "row = [JStr (webhookDate h s), c, f, l]" by blast
    then show ?thesis by simp
  qed
  then have all: "filter (\<lambda>row. 2 \<le> length row) ?rows = ?rows"
    by (intro filter_True) blast
  have start: "startIndex ?rows = 0"
    using shape by (rule startIndex_webhook)
  from assms have "Processed imported skipped =
      Processed (fst (snd (processImportedData h now ?rows st)))
                (snd (snd (processImportedData h now ?rows st)))"
    by (auto simp: importFromWebhook_def Let_def split: if_splits prod.splits)
  then have "imported + skipped =
      fst (snd (processImportedData h now ?rows st)) + snd (snd (processImportedData h now ?rows st))"
    by simp
  also have "\<dots> = length ?rows"
    using processImportedData_sum [of h now ?rows st] by (simp add: start all)
  finally show ?thesis .
qed

text \<open>
  Within one batch the ids grow with the rows, as long as the clock does not run backwards.
\<close>

lemma importRow_ids:
  "\<exists>new. evs (importRow h t i row acc) = evs acc @ new \<and> (\<forall>e \<in> set new. eventId e = t + int i) \<and>
         length new \<le> 1"
  by (simp add: importRow_cases split: option.splits)

lemma importRows_ids:
  assumes "mono now"
  shows "\<exists>new. evs (importRows h now i rows acc) = evs acc @ new \<and>
           sorted_wrt (<) (map eventId new) \<and> (\<forall>e \<in> set new. now i + int i \<le> eventId e)"
proof (induction rows arbitrary: i acc)
  case Nil
  show ?case by simp
next
  case (Cons row rows)
  obtain new1 where n1: "evs (importRow h (now i) i row acc) = evs acc @ new1"
      "\<forall>e \<in> set new1. eventId e = now i + int i" "length new1 \<le> 1"
    using importRow_ids [of h "now i" i row acc] by blast
  obtain new2 where n2:
      "evs (importRows h now (Suc i) rows (importRow h (now i) i row acc)) =
         evs (importRow h (now i) i row acc) @ new2"
      "sorted_wrt (<) (map eventId new2)"
      "\<forall>e \<in> set new2. now (Suc i) + int (Suc i) \<le> eventId e"
    using Cons.IH [of "Suc i" "importRow h (now i) i row acc"] by blast
  have step: "now i + int i < now (Suc i) + int (Suc i)"
    using monoD [OF assms, of i "Suc i"] by simp
  have s1: "sorted_wrt (<) (map eventId new1)"
    using n1(3) by (cases new1) auto
  have "sorted_wrt (<) (map eventId (new1 @ new2))"
    using s1 n2(2) n1(2) n2(3) step by (fastforce simp: sorted_wrt_append)
  moreover have "\<forall>e \<in> set (new1 @ new2). now i + int i \<le> eventId e"
    using n1(2) n2(3) step by fastforce
  ultimately show ?case
    using n1(1) n2(1) by (intro exI [of _ "new1 @ new2"]) simp
qed

lemma batch_ids_distinct:
  assumes "mono now"
  shows "\<exists>new. events (fst (processImportedData h now data st)) = events st @ new \<and>
           distinct (map eventId new)"
proof -
  obtain new where "evs (importRows h now (startIndex data) (drop (startIndex data) data)
       \<lparr>evs = events st, importedCount = 0, skippedCount = 0\<rparr>) = events st @ new"
      "sorted_wrt (<) (map eventId new)"
    using importRows_ids [OF assms, of h "startIndex data" "drop (startIndex data) data"
        "\<lparr>evs = events st, importedCount = 0, skippedCount = 0\<rparr>"] by auto
  then show ?thesis
    using strict_sorted_iff [of "map eventId new"]
    by (intro exI [of _ new]) (simp add: processImportedData_events)
qed

subsection \<open>Deleting an event\<close>

text \<open>
  C10.  Deleting by id, with \<open>deleteEvent\<close> or (once confirmed) from the day dialog,
  keeps exactly the events with another id, unchanged and in their order; it writes the new
  list to the local storage and leaves the text of the search box as it was.  A deletion
  that is not confirmed changes nothing.
\<close>

theorem delete_frame:
  "events (deleteEvent i st) = filter (\<lambda>e. eventId e \<noteq> i) (events st) \<and>
   subseq (events (deleteEvent i st)) (events st) \<and>
   liveopsEvents (deleteEvent i st) = Some (events (deleteEvent i st)) \<and>
   searchInput (deleteEvent i st) = searchInput st \<and>
   events (deleteEventFromModal h True ev st) =
     filter (\<lambda>e. eventId e \<noteq> eventId ev) (events st) \<and>
   subseq (events (deleteEventFromModal h True ev st)) (events st) \<and>
   liveopsEvents (deleteEventFromModal h True ev st) =
     Some (events (deleteEventFromModal h True ev st)) \<and>
   searchInput (deleteEventFromModal h True ev st) = searchInput st \<and>
   deleteEventFromModal h False ev st = st"
proof -
  have "deleteEventFromModal h False ev st = st"
    by (simp add: deleteEventFromModal_def)
  then show ?thesis
    by (simp only: deleteEvent_fields deleteEventFromModal_fields subseq_filter_left simp_thms)
qed

theorem delete_frame_witness:
  "events (deleteEvent 2 samplePage) = [saleA, promoC] \<and>
   liveopsEvents (deleteEvent 2 samplePage) = Some [saleA, promoC] \<and>
   searchInput (deleteEvent 2 samplePage) = ''sale'' \<and>
   events (deleteEventFromModal exampleHost True albumB samplePage) = [saleA, promoC] \<and>
   searchInput (deleteEventFromModal exampleHost True albumB samplePage) = ''sale''"
  using delete_frame [of 2 samplePage exampleHost albumB]
  by (simp add: samplePage_def emptyPage_def saleA_def albumB_def promoC_def)

subsection \<open>The store has one event for each pair of date and title\<close>

text \<open>
  The imports keep the invariant.  Whatever imports (from rows, in either variant of the
  page, or from the webhook) and deletions are performed, a store in which no two events
  share the pair of date and title stays so.  In the loop of an import, a row whose date and
  title are those of an event of \<open>events\<close>, which holds the events of the store and those
  accepted from earlier rows of the same batch, is counted as skipped and changes nothing
  else, whatever its fair and its link; any other row that gets that far is appended.  An
  import keeps the events that were there, in front.
\<close>

lemma imports_keep_unique_keys:
  "(uniqueKeys (events st) \<and> list_all (\<lambda>a. \<not> loadsFile a) acts \<longrightarrow>
      uniqueKeys (events (performAll h acts st))) \<and>
   (candidateKey h row = Some k \<and> k \<in> dedupKey ` set (evs acc) \<longrightarrow>
      importRow h t i row acc = acc\<lparr>skippedCount := skippedCount acc + 1\<rparr>) \<and>
   (candidateKey h row = Some k \<and> k \<notin> dedupKey ` set (evs acc) \<longrightarrow>
      evs (importRow h t i row acc) =
        evs acc @ [\<lparr>eventId = t + int i, date = fst k, title = snd k,
                    fair = cellText row 2, link = cellText row 3\<rparr>]) \<and>
   prefix (events st) (events (fst (processImportedData h now data st))) \<and>
   prefix (events st) (events (fst (processImportedData_app h now data st)))"
proof (intro conjI impI)
  assume "uniqueKeys (events st) \<and> list_all (\<lambda>a. \<not> loadsFile a) acts"
  then show "uniqueKeys (events (performAll h acts st))" by (simp add: performAll_unique)
next
  show "prefix (events st) (events (fst (processImportedData_app h now data st)))"
    by (rule processImportedData_app_prefix)
next
  assume "candidateKey h row = Some k \<and> k \<in> dedupKey ` set (evs acc)"
  then show "importRow h t i row acc = acc\<lparr>skippedCount := skippedCount acc + 1\<rparr>"
    by (auto simp: importRow_cases candidateKey_def split: if_splits)
next
  assume "candidateKey h row = Some k \<and> k \<notin> dedupKey ` set (evs acc)"
  then show "evs (importRow h t i row acc) =
      evs acc @ [\<lparr>eventId = t + int i, date = fst k, title = snd k,
                  fair = cellText row 2, link = cellText row 3\<rparr>]"
    by (auto simp: importRow_cases candidateKey_def split: if_splits)
next
  show "prefix (events st) (events (fst (processImportedData h now data st)))"
    using importRows_prefix [of "\<lparr>evs = events st, importedCount = 0, skippedCount = 0\<rparr>"]
    by (simp add: processImportedData_events)
qed

lemma sheetRow_parts:
  "truthy sheetRow"
  "sheetRow \<noteq> JNull"
  "property sheetRow ''json'' = JNull"
  "property sheetRow ''JUMP TO TODAY'' = JStr '' 5 Mar, Tue''"
  "property sheetRow ''Holiday List'' = JNull"
  "property sheetRow ''ON-CALL TEAM'' = JStr ''Ops''"
  "property sheetRow ''REVENUE'' = JNull"
  "property sheetRow ''PERFORMANCE'' = JNull"
  "normalizeLiveopsDate exampleHost (JStr '' 5 Mar, Tue'') = Some ''2025-03-05''"
  by code_simp+

lemma sheetRow_event:
  "liveopsRow exampleHost i sheetRow =
     Inr (Some \<lparr>eventId = int i, date = ''2025-03-05'', title = '' 5 Mar, Tue | On-call: Ops'',
                fair = [], link = []\<rparr>)"
  by (simp add: liveopsRow_def Let_def sheetRow_parts labelled_def)

lemma sheetFile_events:
  "events (loadEventsFromLiveopsJson exampleHost (Some sheetFile) emptyPage) =
     [\<lparr>eventId = 0, date = ''2025-03-05'', title = '' 5 Mar, Tue | On-call: Ops'',
       fair = [], link = []\<rparr>,
      \<lparr>eventId = 1, date = ''2025-03-05'', title = '' 5 Mar, Tue | On-call: Ops'',
       fair = [], link = []\<rparr>]"
  by (simp add: loadEventsFromLiveopsJson_def sheetFile_def Let_def sheetRow_event saveEvents_def)

lemma duplicates_stay:
  assumes "prefix (events st) (events st')" and "\<not> uniqueKeys (events st)"
  shows "\<not> uniqueKeys (events st')"
  using assms by (auto simp: prefix_def uniqueKeys_def)

text \<open>
  C1.  The store of \<open>liveops-calendar/app.js\<close> can hold two events with one pair of date
  and title.  \<open>loadEventsFromLiveopsJson\<close>, which \<open>init\<close> runs when the page starts,
  replaces the store by one event for each row of \<open>liveops.json\<close> that has a date, and
  compares no row with another, where \<open>processImportedData\<close> looks every row up in
  \<open>events\<close> first.  A file with the same row twice gives two events with the same date
  and the same title, which differ in their ids only; an import of rows that follows keeps
  both.
\<close>

theorem liveops_load_duplicates:
  "events (performAll exampleHost [LoadLiveops (Some sheetFile)] emptyPage) =
     [\<lparr>eventId = 0, date = ''2025-03-05'', title = '' 5 Mar, Tue | On-call: Ops'',
       fair = [], link = []\<rparr>,
      \<lparr>eventId = 1, date = ''2025-03-05'', title = '' 5 Mar, Tue | On-call: Ops'',
       fair = [], link = []\<rparr>] \<and>
   \<not> uniqueKeys (events (performAll exampleHost [LoadLiveops (Some sheetFile)] emptyPage)) \<and>
   \<not> uniqueKeys (events (performAll exampleHost
          [LoadLiveops (Some sheetFile), ImportRowsApp (\<lambda>i. 1000) firstBatch] emptyPage))"
proof -
  let ?st = "loadEventsFromLiveopsJson exampleHost (Some sheetFile) emptyPage"
  have twice: "\<not> uniqueKeys (events ?st)"
    by (simp add: sheetFile_events uniqueKeys_def dedupKey_def)
  have "prefix (events ?st) (events (fst (processImportedData_app exampleHost (\<lambda>i. 1000) firstBatch ?st)))"
    by (rule processImportedData_app_prefix)
  then have "\<not> uniqueKeys (events (fst (processImportedData_app exampleHost (\<lambda>i. 1000) firstBatch ?st)))"
    using twice by (rule duplicates_stay)
  with twice show ?thesis
    by (simp add: sheetFile_events)
qed

subsection \<open>What the two counters add up to\<close>

text \<open>
  C7, as the code has it.  The two counters of \<open>processImportedData\<close>, in both variants
  of the page, add up to the number of rows after the header that have two cells or more.  A row with fewer than two cells
  changes neither counter; a row with two cells or more whose date or title is blank adds
  one to \<open>skippedCount\<close>.  Every row made from a webhook record has four cells and none
  looks like a header, so there the counters add up to the number of rows the records fan
  out to.
\<close>

theorem count_accounting:
  "fst (snd (processImportedData h now data st)) + snd (snd (processImportedData h now data st)) =
     length (filter (\<lambda>row. 2 \<le> length row) (drop (startIndex data) data)) \<and>
   (length row < 2 \<longrightarrow> importRow h t i row acc = acc) \<and>
   (2 \<le> length row \<and> (cellText row 0 = [] \<or> cellText row 1 = []) \<longrightarrow>
      importRow h t i row acc = acc\<lparr>skippedCount := skippedCount acc + 1\<rparr>) \<and>
   (importFromWebhook h now response st = (Processed imported skipped, st') \<and>
    dataArrayOf response = Inr dataArray \<longrightarrow>
      imported + skipped = length (concat (map (webhookRows h) dataArray))) \<and>
   fst (snd (processImportedData_app h now data st)) +
     snd (snd (processImportedData_app h now data st)) =
     length (filter (\<lambda>row. 2 \<le> length row) (drop (startIndex data) data))"
  using processImportedData_sum [of h now data st] processImportedData_app_sum [of h now data st]
    importFromWebhook_counts [of h now response st imported skipped st' dataArray]
  by (simp add: importRow_cases)

theorem count_accounting_witness:
  "fst (snd (processImportedData exampleHost (\<lambda>i. 1000) firstBatch emptyPage)) +
     snd (snd (processImportedData exampleHost (\<lambda>i. 1000) firstBatch emptyPage)) = 3 \<and>
   length firstBatch = 5 \<and>
   importRow exampleHost 1000 3 (firstBatch ! 3)
       \<lparr>evs = [], importedCount = 1, skippedCount = 1\<rparr> =
     \<lparr>evs = [], importedCount = 1, skippedCount = 1\<rparr> \<and>
   importRow exampleHost 1000 4 (firstBatch ! 4)
       \<lparr>evs = [], importedCount = 1, skippedCount = 1\<rparr> =
     \<lparr>evs = [], importedCount = 1, skippedCount = 2\<rparr> \<and>
   fst (importFromWebhook exampleHost (\<lambda>i. 1000) (JArr [springRecord]) emptyPage) =
     Processed 2 0 \<and>
   length (concat (map (webhookRows exampleHost) [springRecord])) = 2"
proof -
  have start: "startIndex firstBatch = 1"
    by code_simp
  have rows: "length (filter (\<lambda>row. 2 \<le> length row) (drop 1 firstBatch)) = 3 \<and>
      length firstBatch = 5"
    by (simp add: firstBatch_def)
  have short: "length (firstBatch ! 3) < 2"
    by (simp add: firstBatch_def)
  have blank: "2 \<le> length (firstBatch ! 4) \<and>
      (cellText (firstBatch ! 4) 0 = [] \<or> cellText (firstBatch ! 4) 1 = [])"
    by (simp add: firstBatch_def cellText_def)
  have hook: "fst (importFromWebhook exampleHost (\<lambda>i. 1000) (JArr [springRecord]) emptyPage) =
      Processed 2 0"
    by code_simp
  then have hook': "importFromWebhook exampleHost (\<lambda>i. 1000) (JArr [springRecord]) emptyPage =
      (Processed 2 0, snd (importFromWebhook exampleHost (\<lambda>i. 1000) (JArr [springRecord]) emptyPage))"
    by (metis prod.collapse)
  have arr: "dataArrayOf (JArr [springRecord]) = Inr [springRecord]"
    by (simp add: dataArrayOf_def)
  note rows_case = count_accounting [of exampleHost "\<lambda>i. 1000" firstBatch emptyPage "firstBatch ! 3"
        1000 3 "\<lparr>evs = [], importedCount = 1, skippedCount = 1\<rparr>"]
  note hook_case = count_accounting [of exampleHost "\<lambda>i. 1000" firstBatch emptyPage "firstBatch ! 4"
        1000 4 "\<lparr>evs = [], importedCount = 1, skippedCount = 1\<rparr>"
        "JArr [springRecord]" 2 0
        "snd (importFromWebhook exampleHost (\<lambda>i. 1000) (JArr [springRecord]) emptyPage)"
        "[springRecord]"]
  from rows_case start rows
  have "fst (snd (processImportedData exampleHost (\<lambda>i. 1000) firstBatch emptyPage)) +
      snd (snd (processImportedData exampleHost (\<lambda>i. 1000) firstBatch emptyPage)) = 3"
    by simp
  moreover from rows_case short
  have "importRow exampleHost 1000 3 (firstBatch ! 3)
       \<lparr>evs = [], importedCount = 1, skippedCount = 1\<rparr> =
     \<lparr>evs = [], importedCount = 1, skippedCount = 1\<rparr>"
    by blast
  moreover from hook_case blank
  have "importRow exampleHost 1000 4 (firstBatch ! 4)
       \<lparr>evs = [], importedCount = 1, skippedCount = 1\<rparr> =
     \<lparr>evs = [], importedCount = 1, skippedCount = 1\<rparr>\<lparr>skippedCount := skippedCount \<lparr>evs = [], importedCount = 1, skippedCount = 1\<rparr> + 1\<rparr>"
    by blast
  moreover from hook_case hook' arr
  have "2 + 0 = length (concat (map (webhookRows exampleHost) [springRecord]))"
    by blast
  ultimately show ?thesis
    using rows hook by simp
qed

text \<open>
  The claim as written fails on a batch of one row with a blank date and a title: the
  specification counts no candidate, the code counts one skipped row.
\<close>

theorem count_accounting_counterexample:
  "fst (snd (processImportedData exampleHost (\<lambda>i. 1000) [[JStr [], JStr ''Untitled day'']] emptyPage)) +
     snd (snd (processImportedData exampleHost (\<lambda>i. 1000) [[JStr [], JStr ''Untitled day'']] emptyPage)) = 1 \<and>
   length (filter specCandidate [[JStr [], JStr ''Untitled day'']]) = 0"
  by code_simp

subsection \<open>Which events a search shows\<close>

lemma toLowerCase_empty: "toLowerCase s = [] \<longleftrightarrow> s = []"
  by (simp add: toLowerCase_def)

lemma includesStr_sublist: "includesStr s q \<longleftrightarrow> sublist q s"
  by (induction s) (auto simp: sublist_Cons_right)

lemma handleSearch_filtered:
  "filteredEvents (handleSearch st) =
     (if toLowerCase (trim (searchInput st)) = [] \<and> fairFilter st = [] then []
      else filter (\<lambda>e. (fairFilter st = [] \<or> fair e = fairFilter st) \<and>
                       (toLowerCase (trim (searchInput st)) = [] \<or>
                        includesStr (toLowerCase (title e)) (toLowerCase (trim (searchInput st)))))
             (events st))"
  by (cases "events st = []") (auto simp: handleSearch_def Let_def intro: filter_cong)

lemma handleSearch_app_filtered:
  "filteredEvents (handleSearch_app st) =
     filter (\<lambda>e. toLowerCase (trim (searchInput st)) = [] \<or>
                  includesStr (toLowerCase (title e)) (toLowerCase (trim (searchInput st))))
       (events st)"
  by (cases "events st = []") (auto simp: handleSearch_app_def Let_def)

lemma searchingPage_query: "toLowerCase (trim (searchInput searchingPage)) = ''po''"
  by code_simp

lemma sample_titles:
  "includesStr (toLowerCase (title saleA)) ''po''"
  "\<not> includesStr (toLowerCase (title albumB)) ''po''"
  "includesStr (toLowerCase (title promoC)) ''po''"
  by code_simp+

text \<open>
  C2, as the code has it.  The query is the trimmed text of the search box in lower case,
  with the selected fair.  When one of the two is not empty, an event is in
  \<open>filteredEvents\<close> exactly when it is in the store, its fair is the selected one (or none
  is selected) and its title in lower case contains the query (or the query is empty).
  When both are empty, \<open>handleSearch\<close> shows no event at all; the variant of
  \<open>liveops-calendar/app.js\<close>, which has no fair selector, shows every event then, so that
  the equivalence holds there for every query.
\<close>

theorem filter_predicate:
  "(toLowerCase (trim (searchInput st)) \<noteq> [] \<or> fairFilter st \<noteq> [] \<longrightarrow>
      (e \<in> set (filteredEvents (handleSearch st)) \<longleftrightarrow>
         e \<in> set (events st) \<and>
         (fairFilter st = [] \<or> fair e = fairFilter st) \<and>
         (toLowerCase (trim (searchInput st)) = [] \<or>
          sublist (toLowerCase (trim (searchInput st))) (toLowerCase (title e))))) \<and>
   (toLowerCase (trim (searchInput st)) = [] \<and> fairFilter st = [] \<longrightarrow>
      filteredEvents (handleSearch st) = []) \<and>
   (e \<in> set (filteredEvents (handleSearch_app st)) \<longleftrightarrow>
      e \<in> set (events st) \<and>
      (toLowerCase (trim (searchInput st)) = [] \<or>
       sublist (toLowerCase (trim (searchInput st))) (toLowerCase (title e))))"
  by (auto simp: handleSearch_filtered handleSearch_app_filtered includesStr_sublist)

theorem filter_predicate_witness:
  "saleA \<in> set (filteredEvents (handleSearch searchingPage)) \<and>
   albumB \<notin> set (filteredEvents (handleSearch searchingPage)) \<and>
   filteredEvents (handleSearch idlePage) = [] \<and>
   albumB \<notin> set (filteredEvents (handleSearch_app searchingPage))"
proof -
  have q: "toLowerCase (trim (searchInput searchingPage)) \<noteq> [] \<or> fairFilter searchingPage \<noteq> []"
    by (simp add: searchingPage_query)
  have idle: "toLowerCase (trim (searchInput idlePage)) = [] \<and> fairFilter idlePage = []"
    by (simp add: idlePage_def emptyPage_def trim_def toLowerCase_def)
  have ev: "saleA \<in> set (events searchingPage) \<and> fairFilter searchingPage = []"
    by (simp add: searchingPage_def emptyPage_def)
  from filter_predicate [of searchingPage saleA] q ev sample_titles(1)
  have "saleA \<in> set (filteredEvents (handleSearch searchingPage))"
    by (simp add: searchingPage_query includesStr_sublist)
  moreover from filter_predicate [of searchingPage albumB] q sample_titles(2)
  have "albumB \<notin> set (filteredEvents (handleSearch searchingPage)) \<and>
      albumB \<notin> set (filteredEvents (handleSearch_app searchingPage))"
    by (simp add: searchingPage_query includesStr_sublist)
  moreover from filter_predicate [of idlePage saleA] idle
  have "filteredEvents (handleSearch idlePage) = []"
    by blast
  ultimately show ?thesis by simp
qed

text \<open>
  The claim as written fails for the empty query: the event is in the store and both
  clauses of the predicate hold, yet the search shows nothing.
\<close>

theorem filter_predicate_counterexample:
  "saleA \<in> set (events idlePage) \<and>
   (fairFilter idlePage = [] \<or> fair saleA = fairFilter idlePage) \<and>
   (searchInput idlePage = [] \<or>
    sublist (toLowerCase (searchInput idlePage)) (toLowerCase (title saleA))) \<and>
   saleA \<notin> set (filteredEvents (handleSearch idlePage))"
  by (simp add: idlePage_def emptyPage_def handleSearch_def Let_def trim_def toLowerCase_def)

subsection \<open>The highlight and its timers\<close>

lemma navigateToEvent_fields:
  "highlightedDate (navigateToEvent ev st) = Some (date ev)"
  "timeouts (navigateToEvent ev st) = timeouts st @ [pageTime st + 5000]"
  "pageTime (navigateToEvent ev st) = pageTime st"
  by (simp_all add: navigateToEvent_def)

lemma elapse_fields:
  "highlightedDate (elapse t st) =
     (if list_ex (\<lambda>due. due \<le> t) (timeouts st) then None else highlightedDate st)"
  "timeouts (elapse t st) = filter (\<lambda>due. t < due) (timeouts st)"
  "pageTime (elapse t st) = max t (pageTime st)"
  by (simp_all add: elapse_def)

text \<open>
  C3.  \<open>navigateToEvent\<close> starts a timer of 5000 ms at every selection, keeps no handle
  of it and cancels none (the script never calls \<open>clearTimeout\<close>), although its comment
  says that the highlight is cleared after 5 seconds.  On a page with no timer pending, the
  event A is selected at 0 ms and the event B at 3000 ms.  The highlight is the date of A,
  then the date of B, and two timers are pending, due at 5000 ms and at 8000 ms.  At
  4999 ms the date of B is still highlighted; at 5000 ms the timer of A fires and the
  highlight is none, 3000 ms before the window of B ends, with the timer of B still
  pending.
\<close>

theorem stale_timer_clears_highlight:
  "timeouts restingPage = [] \<and> pageTime restingPage = 0 \<and>
   highlightedDate (navigateToEvent saleA restingPage) = Some ''2025-03-05'' \<and>
   highlightedDate (navigateToEvent promoC (elapse 3000 (navigateToEvent saleA restingPage))) =
     Some ''2025-04-01'' \<and>
   timeouts (navigateToEvent promoC (elapse 3000 (navigateToEvent saleA restingPage))) =
     [5000, 8000] \<and>
   highlightedDate
     (elapse 4999 (navigateToEvent promoC (elapse 3000 (navigateToEvent saleA restingPage)))) =
     Some ''2025-04-01'' \<and>
   highlightedDate
     (elapse 5000 (navigateToEvent promoC (elapse 3000 (navigateToEvent saleA restingPage)))) =
     None \<and>
   timeouts
     (elapse 5000 (navigateToEvent promoC (elapse 3000 (navigateToEvent saleA restingPage)))) =
     [8000]"
  by (simp add: navigateToEvent_fields elapse_fields restingPage_def emptyPage_def saleA_def
      promoC_def)

subsection \<open>The events of one day\<close>

lemma searchingPage_filtered: "filteredEvents (handleSearch searchingPage) = [saleA, promoC]"
  using sample_titles
  by (simp add: handleSearch_filtered searchingPage_query)
     (simp add: searchingPage_def emptyPage_def)

lemma openDayEventsModal_fields:
  "modalEventsList (openDayEventsModal h es st) = es"
  "currentDayEvents (openDayEventsModal h es st) = es"
  "events (openDayEventsModal h es st) = events st"
  "filteredEvents (openDayEventsModal h es st) = filteredEvents st"
  by (simp_all add: openDayEventsModal_def displayModalEvents_default Let_def)

lemma handleModalSearch_fields:
  "filteredEvents (snd (handleModalSearch h st)) = filteredEvents st"
  "searchInput (snd (handleModalSearch h st)) = searchInput st"
  "fairFilter (snd (handleModalSearch h st)) = fairFilter st"
  "currentDayEvents (snd (handleModalSearch h st)) = currentDayEvents st"
  "events (snd (handleModalSearch h st)) = events st"
  by (simp_all add: handleModalSearch_def displayModalEvents_def Let_def)

lemma handleModalSearch_list:
  assumes "toLowerCase (trim (modalSearchInput st)) = [] \<or>
           validRegExp h (''('' @ toLowerCase (trim (modalSearchInput st)) @ '')'') \<or>
           filter (\<lambda>e. includesStr (toLowerCase (title e)) (toLowerCase (trim (modalSearchInput st))))
             (currentDayEvents st) = []"
  shows "handleModalSearch h st =
     (None, st\<lparr>modalEventsList :=
        filter (\<lambda>e. toLowerCase (trim (modalSearchInput st)) = [] \<or>
                     includesStr (toLowerCase (title e)) (toLowerCase (trim (modalSearchInput st))))
          (currentDayEvents st)\<rparr>)"
proof (cases "toLowerCase (trim (modalSearchInput st)) = []")
  case True
  then show ?thesis
    by (simp add: handleModalSearch_def displayModalEvents_default Let_def)
next
  case False
  with assms show ?thesis
    by (auto simp: handleModalSearch_def displayModalEvents_def Let_def)
qed

text \<open>
  C5, as the code has it.  In \<open>liveops-calendar/app.js\<close>, \<open>openEventModal\<close> lists the
  events of the whole store on the date, whatever the search box and \<open>filteredEvents\<close>
  hold.  In the other variant, the dialog opened from a cell of the grid lists the events of
  \<open>filteredEvents\<close> on the date, so it depends on the last search, and a cell with none
  of them opens nothing.  The search box of the dialog leaves the search of the page alone;
  when its text is empty, is accepted as a regular expression or matches no title, the
  dialog lists the events of its list whose title contains the text.
\<close>

theorem day_detail_views:
  "(d \<noteq> [] \<longrightarrow> openEventModal d st = filter (\<lambda>e. date e = d) (events st)) \<and>
   openEventModal d (st\<lparr>searchInput := q, filteredEvents := shown\<rparr>) = openEventModal d st \<and>
   (dayEvents st d \<noteq> [] \<longrightarrow>
      modalEventsList (clickDay h d st) = filter (\<lambda>e. date e = d) (filteredEvents st) \<and>
      currentDayEvents (clickDay h d st) = filter (\<lambda>e. date e = d) (filteredEvents st)) \<and>
   (dayEvents st d = [] \<longrightarrow> clickDay h d st = st) \<and>
   (toLowerCase (trim (modalSearchInput st)) = [] \<or>
    validRegExp h (''('' @ toLowerCase (trim (modalSearchInput st)) @ '')'') \<or>
    filter (\<lambda>e. sublist (toLowerCase (trim (modalSearchInput st))) (toLowerCase (title e)))
      (currentDayEvents st) = [] \<longrightarrow>
      fst (handleModalSearch h st) = None \<and>
      modalEventsList (snd (handleModalSearch h st)) =
        filter (\<lambda>e. toLowerCase (trim (modalSearchInput st)) = [] \<or>
                     sublist (toLowerCase (trim (modalSearchInput st))) (toLowerCase (title e)))
          (currentDayEvents st)) \<and>
   filteredEvents (snd (handleModalSearch h st)) = filteredEvents st \<and>
   searchInput (snd (handleModalSearch h st)) = searchInput st \<and>
   fairFilter (snd (handleModalSearch h st)) = fairFilter st"
proof -
  have "fst (handleModalSearch h st) = None \<and>
      modalEventsList (snd (handleModalSearch h st)) =
        filter (\<lambda>e. toLowerCase (trim (modalSearchInput st)) = [] \<or>
                     sublist (toLowerCase (trim (modalSearchInput st))) (toLowerCase (title e)))
          (currentDayEvents st)"
    if "toLowerCase (trim (modalSearchInput st)) = [] \<or>
        validRegExp h (''('' @ toLowerCase (trim (modalSearchInput st)) @ '')'') \<or>
        filter (\<lambda>e. sublist (toLowerCase (trim (modalSearchInput st))) (toLowerCase (title e)))
          (currentDayEvents st) = []"
    using handleModalSearch_list [of st h] that by (simp add: includesStr_sublist)
  then show ?thesis
    by (simp add: openEventModal_def clickDay_def dayEvents_def openDayEventsModal_fields
        handleModalSearch_fields)
qed

lemma dayDialog_search:
  "toLowerCase (trim (modalSearchInput dayDialog)) = ''sale''"
  "validRegExp exampleHost ''(sale)''"
  "includesStr (toLowerCase (title saleA)) ''sale''"
  "\<not> includesStr (toLowerCase (title cardD)) ''sale''"
  by code_simp+

theorem day_detail_views_witness:
  "openEventModal ''2025-03-05'' (handleSearch_app searchingPage) = [saleA, albumB] \<and>
   modalEventsList (clickDay exampleHost ''2025-03-05'' (handleSearch searchingPage)) = [saleA] \<and>
   clickDay exampleHost ''2025-03-07'' (handleSearch searchingPage) = handleSearch searchingPage \<and>
   fst (handleModalSearch exampleHost dayDialog) = None \<and>
   modalEventsList (snd (handleModalSearch exampleHost dayDialog)) = [saleA]"
proof -
  let ?st = "handleSearch searchingPage"
  have all: "events (handleSearch_app searchingPage) = [saleA, albumB, promoC]"
    by (simp add: handleSearch_app_def Let_def searchingPage_query)
       (simp add: searchingPage_def emptyPage_def)
  have d: "''2025-03-05'' \<noteq> []"
    by simp
  have shown: "dayEvents ?st ''2025-03-05'' = [saleA]"
    by (simp add: dayEvents_def searchingPage_filtered saleA_def promoC_def)
  have none: "dayEvents ?st ''2025-03-07'' = []"
    by (simp add: dayEvents_def searchingPage_filtered saleA_def promoC_def)
  have cur: "currentDayEvents dayDialog = [saleA, cardD]"
    by (simp add: dayDialog_def emptyPage_def)
  from day_detail_views [of "''2025-03-05''" "handleSearch_app searchingPage"] d all
  have "openEventModal ''2025-03-05'' (handleSearch_app searchingPage) = [saleA, albumB]"
    by (simp add: saleA_def albumB_def promoC_def)
  moreover from day_detail_views [of "''2025-03-05''" ?st _ _ exampleHost] shown
  have "modalEventsList (clickDay exampleHost ''2025-03-05'' ?st) = [saleA]"
    by (simp add: dayEvents_def)
  moreover from day_detail_views [of "''2025-03-07''" ?st _ _ exampleHost] none
  have "clickDay exampleHost ''2025-03-07'' ?st = ?st"
    by blast
  moreover from day_detail_views [of "''2025-03-05''" dayDialog _ _ exampleHost]
  have "fst (handleModalSearch exampleHost dayDialog) = None \<and>
      modalEventsList (snd (handleModalSearch exampleHost dayDialog)) = [saleA]"
    using dayDialog_search cur by (simp add: includesStr_sublist [symmetric])
  ultimately show ?thesis by simp
qed

text \<open>
  The claim as written fails after a search for \<open>PO\<close>: the dialog of 2025-03-05 lists one
  event, the store has two on that date.
\<close>

theorem day_detail_views_counterexample:
  "modalEventsList (clickDay exampleHost ''2025-03-05'' (handleSearch searchingPage)) = [saleA] \<and>
   filter (\<lambda>e. date e = ''2025-03-05'') (events (handleSearch searchingPage)) = [saleA, albumB]"
  by (simp add: clickDay_def dayEvents_def searchingPage_filtered openDayEventsModal_fields
      handleSearch_fields)
     (simp add: searchingPage_def emptyPage_def saleA_def albumB_def promoC_def)

text \<open>
  A text in the search box of the dialog that is not a regular expression, such as \<open>(dcc\<close>,
  and that matches a title leaves the dialog empty: the \<open>SyntaxError\<close> is thrown before
  the first match is listed.
\<close>

lemma modal_search_syntax_error:
  "fst (handleModalSearch exampleHost (dayDialog\<lparr>modalSearchInput := ''(dcc''\<rparr>)) =
     Some SyntaxError"
  "modalEventsList (snd (handleModalSearch exampleHost (dayDialog\<lparr>modalSearchInput := ''(dcc''\<rparr>))) =
     []"
  "filter (\<lambda>e. includesStr (toLowerCase (title e)) ''(dcc'')
     (currentDayEvents (dayDialog\<lparr>modalSearchInput := ''(dcc''\<rparr>)) = [cardD]"
  by code_simp+

subsection \<open>The shape of the webhook response\<close>

lemma dataArrayOf_array: "dataArrayOf (JArr xs) = Inr xs"
  by (simp add: dataArrayOf_def)

lemma dataArrayOf_data:
  "(\<forall>ys. data \<noteq> JArr ys) \<Longrightarrow> property data ''data'' = JArr xs \<Longrightarrow> dataArrayOf data = Inr xs"
  by (cases data) (auto simp: dataArrayOf_def property_def)

lemma dataArrayOf_body:
  "(\<forall>ys. data \<noteq> JArr ys) \<Longrightarrow> (\<forall>ys. property data ''data'' \<noteq> JArr ys) \<Longrightarrow>
   property data ''body'' = JArr xs \<Longrightarrow> dataArrayOf data = Inr xs"
  by (cases data; cases "property data ''data''") (auto simp: dataArrayOf_def property_def)

lemma dataArrayOf_other:
  "(\<forall>ys. data \<noteq> JArr ys) \<Longrightarrow> (\<forall>ys. property data ''data'' \<noteq> JArr ys) \<Longrightarrow>
   (\<forall>ys. property data ''body'' \<noteq> JArr ys) \<Longrightarrow>
   dataArrayOf data = Inl (if data = JNull then TypeError else UnexpectedDataFormat)"
  by (cases data; cases "property data ''data''"; cases "property data ''body''")
     (auto simp: dataArrayOf_def property_def)

lemma importFromWebhook_failed:
  "fst (importFromWebhook h now data st) = Failed e \<Longrightarrow> snd (importFromWebhook h now data st) = st"
  by (auto simp: importFromWebhook_def Let_def split: sum.splits if_splits prod.splits)

lemma importFromWebhook_accepted:
  "dataArrayOf data = Inr dataArray \<Longrightarrow> \<not> list_ex (\<lambda>item. item = JNull) dataArray \<Longrightarrow>
   concat (map (webhookRows h) dataArray) \<noteq> [] \<Longrightarrow>
   importFromWebhook h now data st =
     (Processed (fst (snd (processImportedData h now (concat (map (webhookRows h) dataArray)) st)))
                (snd (snd (processImportedData h now (concat (map (webhookRows h) dataArray)) st))),
      fst (processImportedData h now (concat (map (webhookRows h) dataArray)) st))"
  by (auto simp: importFromWebhook_def Let_def split: prod.splits)

text \<open>
  C8.  A response that is an array, or whose member \<open>data\<close> is an array, or else whose
  member \<open>body\<close> is an array, gives the records to import, and the import then is what
  \<open>processImportedData\<close> makes of the rows they fan out to.  Any other response fails
  (with the error \<open>Unexpected data format\<close>, or a \<open>TypeError\<close> for \<open>null\<close>), and every
  failure leaves the page, and so the store, as it was.
\<close>

theorem webhook_shapes:
  "dataArrayOf (JArr xs) = Inr xs \<and>
   ((\<forall>ys. data \<noteq> JArr ys) \<and> property data ''data'' = JArr xs \<longrightarrow> dataArrayOf data = Inr xs) \<and>
   ((\<forall>ys. data \<noteq> JArr ys) \<and> (\<forall>ys. property data ''data'' \<noteq> JArr ys) \<and>
    property data ''body'' = JArr xs \<longrightarrow> dataArrayOf data = Inr xs) \<and>
   (dataArrayOf data = Inr dataArray \<and> \<not> list_ex (\<lambda>item. item = JNull) dataArray \<and>
    concat (map (webhookRows h) dataArray) \<noteq> [] \<longrightarrow>
      snd (importFromWebhook h now data st) =
        fst (processImportedData h now (concat (map (webhookRows h) dataArray)) st)) \<and>
   ((\<forall>ys. data \<noteq> JArr ys) \<and> (\<forall>ys. property data ''data'' \<noteq> JArr ys) \<and>
    (\<forall>ys. property data ''body'' \<noteq> JArr ys) \<longrightarrow>
      importFromWebhook h now data st =
        (Failed (if data = JNull then TypeError else UnexpectedDataFormat), st)) \<and>
   (fst (importFromWebhook h now data st) = Failed e \<longrightarrow>
      snd (importFromWebhook h now data st) = st)"
proof (intro conjI impI)
  show "dataArrayOf (JArr xs) = Inr xs" by (rule dataArrayOf_array)
next
  assume "(\<forall>ys. data \<noteq> JArr ys) \<and> property data ''data'' = JArr xs"
  then show "dataArrayOf data = Inr xs" by (simp add: dataArrayOf_data)
next
  assume "(\<forall>ys. data \<noteq> JArr ys) \<and> (\<forall>ys. property data ''data'' \<noteq> JArr ys) \<and>
    property data ''body'' = JArr xs"
  then show "dataArrayOf data = Inr xs" by (simp add: dataArrayOf_body)
next
  assume "dataArrayOf data = Inr dataArray \<and> \<not> list_ex (\<lambda>item. item = JNull) dataArray \<and>
    concat (map (webhookRows h) dataArray) \<noteq> []"
  then show "snd (importFromWebhook h now data st) =
      fst (processImportedData h now (concat (map (webhookRows h) dataArray)) st)"
    using importFromWebhook_accepted [of data dataArray h now st] by simp
next
  assume "(\<forall>ys. data \<noteq> JArr ys) \<and> (\<forall>ys. property data ''data'' \<noteq> JArr ys) \<and>
    (\<forall>ys. property data ''body'' \<noteq> JArr ys)"
  then have "dataArrayOf data = Inl (if data = JNull then TypeError else UnexpectedDataFormat)"
    by (simp add: dataArrayOf_other)
  then show "importFromWebhook h now data st =
      (Failed (if data = JNull then TypeError else UnexpectedDataFormat), st)"
    by (simp add: importFromWebhook_def)
next
  assume "fst (importFromWebhook h now data st) = Failed e"
  then show "snd (importFromWebhook h now data st) = st" by (rule importFromWebhook_failed)
qed


lemma springRecord_parts:
  "dateField springRecord = JStr '' 5 Mar, Tue''"
  "filter (\<lambda>colName. acceptedValue (property springRecord colName)) eventColumns =
     [''Fairs'', ''PO 1'']"
  "fairValue springRecord = JStr ''SpringFair''"
  "linkValue springRecord = JStr []"
  "toString (property springRecord ''Fairs'') = ''SpringFair''"
  "toString (property springRecord ''PO 1'') = ''Sale A''"
  "dayAndMonth '' 5 Mar, Tue'' = (Some 5, Some 2)"
  by code_simp+

lemma newDate_valid:
  assumes "100 \<le> y" "y \<le> 275759" "0 \<le> m" "m \<le> 11" "1 \<le> d" "d \<le> daysInMonth y m"
  shows "newDate y (Some m) (Some d) = Some (y, m, d)"
proof -
  have "rollDay y m d = (y, m, d)"
    using assms by (subst rollDay.simps) simp
  moreover have "m div 12 = 0" "m mod 12 = m"
    using assms by simp_all
  moreover have "inDateRange (y, m, d)"
    using assms by (simp add: inDateRange_def)
  ultimately show ?thesis
    using assms by (simp add: newDate_def Let_def)
qed

lemma padded_3_5: "padStart2 (showInt 3) = ''03''" "padStart2 (showInt 5) = ''05''"
  by code_simp+

lemma springRecord_rows:
  assumes "100 \<le> currentYear h" "currentYear h \<le> 275759"
  shows "webhookRows h springRecord =
     [[JStr (showInt (currentYear h) @ ''-03-05''), JStr ''Fairs: SpringFair'',
       JStr ''SpringFair'', JStr []],
      [JStr (showInt (currentYear h) @ ''-03-05''), JStr ''PO 1: Sale A'',
       JStr ''SpringFair'', JStr []]]"
proof -
  have "newDate (currentYear h) (Some 2) (Some 5) = Some (currentYear h, 2, 5)"
    using assms by (intro newDate_valid) (simp_all add: daysInMonth_def)
  then have "webhookDate h '' 5 Mar, Tue'' = showInt (currentYear h) @ ''-03-05''"
    by (simp add: webhookDate_def springRecord_parts formatDateOrNaN_def formatDate_def padded_3_5)
  then show ?thesis
    by (simp add: webhookRows_def Let_def springRecord_parts)
qed

lemma exampleHost_year: "currentYear exampleHost = 2025" "showInt 2025 = ''2025''"
  by code_simp+

theorem webhook_shapes_witness:
  "importFromWebhook exampleHost (\<lambda>i. 1000) statusReply samplePage =
     (Failed UnexpectedDataFormat, samplePage) \<and>
   importFromWebhook exampleHost (\<lambda>i. 1000) JNull samplePage = (Failed TypeError, samplePage) \<and>
   dataArrayOf dataReply = Inr [springRecord] \<and>
   dataArrayOf bodyReply = Inr [springRecord] \<and>
   snd (importFromWebhook exampleHost (\<lambda>i. 1000) bodyReply samplePage) =
     fst (processImportedData exampleHost (\<lambda>i. 1000)
            (concat (map (webhookRows exampleHost) [springRecord])) samplePage)"
proof -
  have status: "(\<forall>ys. statusReply \<noteq> JArr ys) \<and> (\<forall>ys. property statusReply ''data'' \<noteq> JArr ys) \<and>
      (\<forall>ys. property statusReply ''body'' \<noteq> JArr ys) \<and> statusReply \<noteq> JNull"
    by (simp add: statusReply_def property_def)
  have null: "(\<forall>ys. JNull \<noteq> JArr ys) \<and> (\<forall>ys. property JNull ''data'' \<noteq> JArr ys) \<and>
      (\<forall>ys. property JNull ''body'' \<noteq> JArr ys)"
    by (simp add: property_def)
  have data: "(\<forall>ys. dataReply \<noteq> JArr ys) \<and> property dataReply ''data'' = JArr [springRecord]"
    by (simp add: dataReply_def property_def)
  have body: "(\<forall>ys. bodyReply \<noteq> JArr ys) \<and> (\<forall>ys. property bodyReply ''data'' \<noteq> JArr ys) \<and>
      property bodyReply ''body'' = JArr [springRecord]"
    by (simp add: bodyReply_def property_def)
  have rows: "\<not> list_ex (\<lambda>item. item = JNull) [springRecord] \<and>
      concat (map (webhookRows exampleHost) [springRecord]) \<noteq> []"
    by (simp add: springRecord_rows exampleHost_year) (simp add: springRecord_def)
  from webhook_shapes [of "[springRecord]" statusReply _ exampleHost "\<lambda>i. 1000" samplePage] status
  have "importFromWebhook exampleHost (\<lambda>i. 1000) statusReply samplePage =
      (Failed UnexpectedDataFormat, samplePage)"
    by simp
  moreover from webhook_shapes [of "[springRecord]" JNull _ exampleHost "\<lambda>i. 1000" samplePage] null
  have "importFromWebhook exampleHost (\<lambda>i. 1000) JNull samplePage = (Failed TypeError, samplePage)"
    by simp
  moreover from webhook_shapes [of "[springRecord]" dataReply] data
  have "dataArrayOf dataReply = Inr [springRecord]"
    by blast
  moreover from webhook_shapes [of "[springRecord]" bodyReply] body
  have b: "dataArrayOf bodyReply = Inr [springRecord]"
    by blast
  moreover from webhook_shapes [of "[springRecord]" bodyReply "[springRecord]" exampleHost
      "\<lambda>i. 1000" samplePage] b rows
  have "snd (importFromWebhook exampleHost (\<lambda>i. 1000) bodyReply samplePage) =
     fst (processImportedData exampleHost (\<lambda>i. 1000)
            (concat (map (webhookRows exampleHost) [springRecord])) samplePage)"
    by blast
  ultimately show ?thesis by simp
qed

subsection \<open>The rows of one webhook record\<close>

lemma acceptedValue_text: "acceptedValue (JStr v) \<longleftrightarrow> trim v \<noteq> [] \<and> v \<noteq> ''-''"
  by (auto simp: acceptedValue_def trim_def)

lemma eventColumns_distinct: "distinct eventColumns \<and> length eventColumns = 31"
  by code_simp

text \<open>
  C4, as the code has it.  A record whose date (\<open>Date\<close>, or else \<open>date\<close>) is a text
  that is not empty, whether or not it reads as a date, yields one
  row for each of the 31 distinct event columns, in their order, whose value is accepted
  (for a text: not blank and not \<open>-\<close>), with the title \<open>column: value\<close> and the date, fair
  and link of the record.  \<open>Fairs\<close> is one of the event columns: the record of the
  specification, with the year \<open>Y\<close> of the host, yields two rows, \<open>Fairs: SpringFair\<close> and
  \<open>PO 1: Sale A\<close>, both on \<open>Y-03-05\<close>.  A record with no date, or one that is not a
  text, yields nothing.
\<close>

theorem webhook_fan_out:
  "(dateField item = JStr s \<and> s \<noteq> [] \<longrightarrow>
      webhookRows h item =
        map (\<lambda>colName. [JStr (webhookDate h s),
                         JStr (colName @ '': '' @ toString (property item colName)),
                         fairValue item, linkValue item])
          (filter (\<lambda>colName. acceptedValue (property item colName)) eventColumns)) \<and>
   (acceptedValue (JStr v) \<longleftrightarrow> trim v \<noteq> [] \<and> v \<noteq> ''-'') \<and>
   distinct eventColumns \<and> length eventColumns = 31 \<and>
   (100 \<le> currentYear h \<and> currentYear h \<le> 275759 \<longrightarrow>
      webhookRows h springRecord =
        [[JStr (showInt (currentYear h) @ ''-03-05''), JStr ''Fairs: SpringFair'',
          JStr ''SpringFair'', JStr []],
         [JStr (showInt (currentYear h) @ ''-03-05''), JStr ''PO 1: Sale A'',
          JStr ''SpringFair'', JStr []]]) \<and>
   ((\<forall>t. dateField item \<noteq> JStr t) \<or> dateField item = JStr [] \<longrightarrow> webhookRows h item = [])"
proof (intro conjI impI)
  assume "(\<forall>t. dateField item \<noteq> JStr t) \<or> dateField item = JStr []"
  then show "webhookRows h item = []"
    by (cases "dateField item") (auto simp: webhookRows_def)
next
  assume "dateField item = JStr s \<and> s \<noteq> []"
  then show "webhookRows h item =
      map (\<lambda>colName. [JStr (webhookDate h s),
                       JStr (colName @ '': '' @ toString (property item colName)),
                       fairValue item, linkValue item])
        (filter (\<lambda>colName. acceptedValue (property item colName)) eventColumns)"
    by (simp add: webhookRows_def)
next
  show "acceptedValue (JStr v) \<longleftrightarrow> trim v \<noteq> [] \<and> v \<noteq> ''-''"
    by (rule acceptedValue_text)
next
  show "distinct eventColumns" "length eventColumns = 31"
    using eventColumns_distinct by simp_all
next
  assume "100 \<le> currentYear h \<and> currentYear h \<le> 275759"
  then show "webhookRows h springRecord =
        [[JStr (showInt (currentYear h) @ ''-03-05''), JStr ''Fairs: SpringFair'',
          JStr ''SpringFair'', JStr []],
         [JStr (showInt (currentYear h) @ ''-03-05''), JStr ''PO 1: Sale A'',
          JStr ''SpringFair'', JStr []]]"
    by (simp add: springRecord_rows)
qed

lemma quietRecord_parts:
  "dateField quietRecord = JStr ''12 Dec''"
  "dateField serialRecord = JNum 45643"
  "filter (\<lambda>colName. acceptedValue (property quietRecord colName)) eventColumns =
     [''Event 2'', ''Web'']"
  "fairValue quietRecord = JStr []"
  "linkValue quietRecord = JStr ''https://example.org/w''"
  "toString (property quietRecord ''Event 2'') = '' - ''"
  "toString (property quietRecord ''Web'') = ''7''"
  "webhookDate exampleHost ''12 Dec'' = ''2025-12-12''"
  by code_simp+

theorem webhook_fan_out_witness:
  "webhookRows exampleHost serialRecord = [] \<and>
   webhookRows exampleHost quietRecord =
     [[JStr ''2025-12-12'', JStr ''Event 2:  - '', JStr [], JStr ''https://example.org/w''],
      [JStr ''2025-12-12'', JStr ''Web: 7'', JStr [], JStr ''https://example.org/w'']] \<and>
   webhookRows exampleHost springRecord =
     [[JStr ''2025-03-05'', JStr ''Fairs: SpringFair'', JStr ''SpringFair'', JStr []],
      [JStr ''2025-03-05'', JStr ''PO 1: Sale A'', JStr ''SpringFair'', JStr []]]"
proof -
  have d: "dateField quietRecord = JStr ''12 Dec'' \<and> ''12 Dec'' \<noteq> []"
    by (simp add: quietRecord_parts)
  have y: "100 \<le> currentYear exampleHost \<and> currentYear exampleHost \<le> 275759"
    by (simp add: exampleHost_year)
  from webhook_fan_out [of quietRecord "''12 Dec''" exampleHost] d
  have "webhookRows exampleHost quietRecord =
      map (\<lambda>colName. [JStr (webhookDate exampleHost ''12 Dec''),
                       JStr (colName @ '': '' @ toString (property quietRecord colName)),
                       fairValue quietRecord, linkValue quietRecord])
        (filter (\<lambda>colName. acceptedValue (property quietRecord colName)) eventColumns)"
    by blast
  then have "webhookRows exampleHost quietRecord =
     [[JStr ''2025-12-12'', JStr ''Event 2:  - '', JStr [], JStr ''https://example.org/w''],
      [JStr ''2025-12-12'', JStr ''Web: 7'', JStr [], JStr ''https://example.org/w'']]"
    by (simp add: quietRecord_parts)
  moreover from webhook_fan_out [of quietRecord "''12 Dec''" exampleHost] y
  have "webhookRows exampleHost springRecord =
        [[JStr (showInt (currentYear exampleHost) @ ''-03-05''), JStr ''Fairs: SpringFair'',
          JStr ''SpringFair'', JStr []],
         [JStr (showInt (currentYear exampleHost) @ ''-03-05''), JStr ''PO 1: Sale A'',
          JStr ''SpringFair'', JStr []]]"
    by blast
  moreover have "(\<forall>t. dateField serialRecord \<noteq> JStr t) \<or> dateField serialRecord = JStr []"
    by (simp add: quietRecord_parts)
  with webhook_fan_out [of serialRecord _ exampleHost]
  have "webhookRows exampleHost serialRecord = []"
    by blast
  ultimately show ?thesis by (simp add: exampleHost_year)
qed

text \<open>
  The claim as written fails on its own example: the rows are two, the first of them for
  the column \<open>Fairs\<close>.
\<close>

theorem webhook_fan_out_counterexample:
  "webhookRows exampleHost springRecord \<noteq>
     [[JStr ''2025-03-05'', JStr ''PO 1: Sale A'', JStr ''SpringFair'', JStr []]] \<and>
   length (webhookRows exampleHost springRecord) = 2 \<and>
   webhookRows exampleHost springRecord ! 0 =
     [JStr ''2025-03-05'', JStr ''Fairs: SpringFair'', JStr ''SpringFair'', JStr []]"
  by (simp add: springRecord_rows exampleHost_year)

subsection \<open>Reading dates\<close>













lemma trim_lead_plain:
  assumes "\<forall>c \<in> set lead. isWhiteSpace c" and "s \<noteq> []"
    and "\<not> isWhiteSpace (hd s)" and "\<not> isWhiteSpace (last s)"
  shows "trim (lead @ s) = s"
proof -
  have "dropWhile isWhiteSpace (lead @ s) = s"
    using assms by (cases s) (auto simp: dropWhile_append)
  moreover have "dropWhile isWhiteSpace (rev s) = rev s"
    using assms by (cases "rev s") (auto simp: last_rev [symmetric] hd_rev)
  ultimately show ?thesis by (simp add: trim_def)
qed


























text \<open>
  To the west of UTC the path of the rows gives the day before the date of a text of the
  form \<open>YYYY-MM-DD\<close>: the text is read as midnight in UTC and formatted with the fields
  of the local time.
\<close>

lemma iso_date_west_of_utc:
  "importedDate westHost ''2024-12-25'' = Formatted ''2024-12-24''"
  "importedDate exampleHost ''2024-12-25'' = Formatted ''2024-12-25''"
  by code_simp+

subsection \<open>The ids of events\<close>

text \<open>
  C9.  The id of an imported event is \<open>Date.now() + i\<close>, the time in milliseconds plus the
  index of its row.  Two batches that start within fewer milliseconds than the first has
  rows give the same id twice: here the second row of a batch read at time \<open>T\<close> and the
  first row of a batch read at \<open>T + 1\<close> both get the id \<open>T + 1\<close>.
\<close>

theorem id_collision_across_batches:
  "map (\<lambda>e. (eventId e, title e))
     (events (performAll exampleHost
        [ImportRows (\<lambda>i. 1700000000000) morningBatch,
         ImportRows (\<lambda>i. 1700000000001) laterBatch] emptyPage)) =
     [(1700000000000, ''PO 1: Sale A''), (1700000000001, ''PO 1: Sale B''),
      (1700000000001, ''PO 1: Sale C'')]"
  by code_simp

end
